theory Spec2Isabelle
  imports
    Main
    "HOL-Library.Word"
    "HOL-Library.Char_ord"
    "HOL-Library.List_Lexorder"
    "HOL-Library.Multiset"
begin

section \<open>Strings, numbers and bytes of the JavaScript runtime\<close>

text \<open>
  The gateway exists in several revisions in the repository.  Three of them are embedded
  here:
  \<^item> the Cloudflare worker of \<^verbatim>\<open>src/backend/serverCloudwareWorker.ts\<close>, lines 1-176
    (plain names: \<open>isRateLimited\<close>, \<open>fetchFromCloudinary\<close>, \<open>handleGetFlag\<close>, ...);
  \<^item> the worker revision of \<^verbatim>\<open>src/unnamed/part_002\<close>, lines 1-201, which adds the
    cross-origin headers, an HMAC signature and a verification request to the origin
    (names with the suffix \<open>_cors\<close> where they differ from the first revision); its
    signature generator is the same function as the one of \<^verbatim>\<open>src/unnamed/part_004\<close>;
  \<^item> the Express server of \<^verbatim>\<open>src/backend/serverCloudwareWorker.ts\<close>, lines 344-573
    (\<open>getFlagHandler\<close>, \<open>fetchAndCacheFlag_express\<close>).

  Strings are \<open>char list\<close>; a \<open>char\<close> is one byte, so \<open>TextEncoder.encode\<close> is the
  identity.  Times are milliseconds (\<open>Date.now()\<close>) as \<open>nat\<close>.
\<close>

type_synonym byte = "8 word"

text \<open>\<open>Array.prototype.join\<close> on a list of strings.\<close>

fun join :: "string \<Rightarrow> string list \<Rightarrow> string" where
  "join sep [] = []"
| "join sep [x] = x"
| "join sep (x # y # ys) = x @ sep @ join sep (y # ys)"

text \<open>\<open>Number.prototype.toString(16)\<close> on a byte, and \<open>padStart(2, "0")\<close>.\<close>

definition hexDigit :: "nat \<Rightarrow> char" where
  "hexDigit d = ''0123456789abcdef'' ! d"

definition toString16 :: "byte \<Rightarrow> string" where
  "toString16 b =
     (if unat b < 16 then [hexDigit (unat b)]
      else [hexDigit (unat b div 16), hexDigit (unat b mod 16)])"

definition padStart :: "nat \<Rightarrow> char \<Rightarrow> string \<Rightarrow> string" where
  "padStart n c s = replicate (n - length s) c @ s"

text \<open>
  \<open>bytes.map((b) => b.toString(16).padStart(2, "0")).join("")\<close>, the conversion every
  revision with a hexadecimal signature uses.
\<close>

definition toHex :: "byte list \<Rightarrow> string" where
  "toHex bytes = join [] (map (\<lambda>b. padStart 2 (CHR ''0'') (toString16 b)) bytes)"

text \<open>\<open>Number.prototype.toString()\<close> on a non-negative integer: its decimal digits.\<close>

definition digitChar :: "nat \<Rightarrow> char" where
  "digitChar d = ''0123456789'' ! d"

function toString :: "nat \<Rightarrow> string" where
  "toString n = (if n < 10 then [digitChar n] else toString (n div 10) @ [digitChar (n mod 10)])"
  by pat_completeness auto
termination
  by (relation "measure (\<lambda>n. n)") auto

declare toString.simps [simp del]

text \<open>
  A JavaScript number as far as the rate limiter needs it: a non-negative integer or
  \<open>NaN\<close>.  \<open>parseInt\<close> is modelled on the strings the gateway itself stores under a
  counter key, the decimal digits written by \<open>(count + 1).toString()\<close>: it reads the
  longest prefix of decimal digits and yields \<open>NaN\<close> when there is none.  Leading white
  space, a sign and the prefix \<open>0x\<close>, which JavaScript's \<open>parseInt\<close> also accepts,
  are not modelled; they occur only if something other than the gateway writes a counter.
\<close>

datatype jsnum = Num nat | NaN

definition isDigit :: "char \<Rightarrow> bool" where
  "isDigit c = (c \<in> set ''0123456789'')"

definition digitVal :: "char \<Rightarrow> nat" where
  "digitVal c = of_char c - 48"

definition parseInt :: "string \<Rightarrow> jsnum" where
  "parseInt s =
     (let ds = takeWhile isDigit s
      in if ds = [] then NaN else Num (foldl (\<lambda>acc c. 10 * acc + digitVal c) 0 ds))"

fun jsnum_ge :: "jsnum \<Rightarrow> nat \<Rightarrow> bool" where
  "jsnum_ge (Num n) m = (m \<le> n)"
| "jsnum_ge NaN m = False"

fun jsnum_succ_toString :: "jsnum \<Rightarrow> string" where
  "jsnum_succ_toString (Num n) = toString (n + 1)"
| "jsnum_succ_toString NaN = ''NaN''"

text \<open>\<open>x || d\<close> on a value of type \<open>string | null\<close>: the empty string is falsy too.\<close>

definition orDefault :: "string option \<Rightarrow> string \<Rightarrow> string" where
  "orDefault x d = (case x of None \<Rightarrow> d | Some s \<Rightarrow> if s = [] then d else s)"

text \<open>
  \<open>String.prototype.toUpperCase\<close> follows the Unicode case mappings (it turns the
  sharp s into \<open>SS\<close> and the dotless i into \<open>I\<close>), which are a table of the
  runtime: the handlers take it as the parameter \<open>toUpperCase\<close>.  On a string of ASCII
  characters it is \<open>asciiUpperCase\<close>, which stands for it at the concrete inputs below.
\<close>

definition upperChar :: "char \<Rightarrow> char" where
  "upperChar c =
     (if CHR ''a'' \<le> c \<and> c \<le> CHR ''z'' then char_of (of_char c - (32::nat)) else c)"

definition asciiUpperCase :: "string \<Rightarrow> string" where
  "asciiUpperCase s = map upperChar s"

section \<open>The platform: Web Crypto, the key-value namespace, the environment\<close>

text \<open>
  \<open>crypto.subtle\<close> is not code of the repository: its two operations are parameters.
  \<open>subtle_digest alg data\<close> is \<open>crypto.subtle.digest(alg, data)\<close> and
  \<open>subtle_sign hash key data\<close> is \<open>importKey("raw", key, {name: "HMAC", hash})\<close>
  followed by \<open>sign("HMAC", key, data)\<close>; \<open>None\<close> is a rejected promise.
\<close>

record subtle =
  subtle_digest :: "string \<Rightarrow> string \<Rightarrow> byte list option"
  subtle_sign :: "string \<Rightarrow> string \<Rightarrow> string \<Rightarrow> byte list option"

record Env =
  CLOUDINARY_CLOUD_NAME :: string
  CLOUDINARY_API_KEY :: string
  CLOUDINARY_API_SECRET :: string

definition TTL_SECONDS :: nat where
  "TTL_SECONDS = 12 * 60 * 60"

definition RATE_LIMIT_KEY_PREFIX :: string where
  "RATE_LIMIT_KEY_PREFIX = ''rl_''"

definition RATE_LIMIT_MAX :: nat where
  "RATE_LIMIT_MAX = 100"

definition RATE_LIMIT_WINDOW_SEC :: nat where
  "RATE_LIMIT_WINDOW_SEC = 900"

text \<open>
  The namespace \<open>env.FLAG_CACHE\<close>: every key holds a value and the time (in
  milliseconds) at which it expires.  \<open>put(key, value, {expirationTtl: ttl})\<close> makes
  the key expire \<open>ttl\<close> seconds after the write; \<open>get\<close> yields \<open>null\<close> for an absent
  or expired key.
\<close>

type_synonym KVNamespace = "string \<rightharpoonup> (string \<times> nat)"

definition kv_get :: "KVNamespace \<Rightarrow> nat \<Rightarrow> string \<Rightarrow> string option" where
  "kv_get kv now key =
     (case kv key of
        None \<Rightarrow> None
      | Some (v, expiresAt) \<Rightarrow> if now < expiresAt then Some v else None)"

definition kv_put :: "KVNamespace \<Rightarrow> nat \<Rightarrow> string \<Rightarrow> string \<Rightarrow> nat \<Rightarrow> KVNamespace" where
  "kv_put kv now key v ttl = kv(key \<mapsto> (v, now + ttl * 1000))"

section \<open>Signature generation\<close>

text \<open>
  \<open>generateCloudinarySignature\<close> of part_002 (lines 77-106) and part_004 (lines
  221-245).  The parameter object is an association list in insertion order with
  distinct keys; \<open>params[key]\<close> of a missing property prints as \<open>undefined\<close>.
  \<open>Array.prototype.sort\<close> without a comparator orders strings by their code units.
\<close>

definition objectKeys :: "(string \<times> string) list \<Rightarrow> string list" where
  "objectKeys params = map fst params"

definition property :: "(string \<times> string) list \<Rightarrow> string \<Rightarrow> string" where
  "property params key = (case map_of params key of None \<Rightarrow> ''undefined'' | Some v \<Rightarrow> v)"

definition queryString :: "(string \<times> string) list \<Rightarrow> string" where
  "queryString params =
     join ''&'' (map (\<lambda>key. key @ ''='' @ property params key) (sort (objectKeys params)))"

definition generateCloudinarySignature ::
  "subtle \<Rightarrow> (string \<times> string) list \<Rightarrow> Env \<Rightarrow> string option" where
  "generateCloudinarySignature crypto params env =
     (case subtle_sign crypto ''SHA-1'' (CLOUDINARY_API_SECRET env) (queryString params) of
        None \<Rightarrow> None
      | Some signatureBuffer \<Rightarrow> Some (toHex signatureBuffer))"

text \<open>
  The signature inside \<open>fetchFromCloudinary\<close> of serverCloudwareWorker.ts (lines
  78-89): the string to sign is \<open>timestamp=<expiresAt><secret>\<close> and the signature is
  the hexadecimal form of its SHA-256 digest.
\<close>

definition signatureHex :: "subtle \<Rightarrow> Env \<Rightarrow> nat \<Rightarrow> string option" where
  "signatureHex crypto env expiresAt =
     (let stringToSign = ''timestamp='' @ toString expiresAt @ CLOUDINARY_API_SECRET env
      in case subtle_digest crypto ''SHA-256'' stringToSign of
           None \<Rightarrow> None
         | Some hashArray \<Rightarrow> Some (toHex hashArray))"

section \<open>Requests and responses\<close>

text \<open>
  A request as the handlers read it: the method, \<open>new URL(req.url).pathname\<close>, the
  query parameters in order, and the headers.  A response is its status, its headers and
  the object passed to \<open>JSON.stringify\<close> (\<open>None\<close> for a \<open>null\<close> body).
\<close>

record Request =
  httpMethod :: string
  pathname :: string
  searchParams :: "(string \<times> string) list"
  headers :: "string \<rightharpoonup> string"

datatype jsvalue = JBool bool | JString string

record Response =
  status :: nat
  resHeaders :: "(string \<times> string) list"
  body :: "(string \<times> jsvalue) list option"

text \<open>\<open>url.searchParams.get(name)\<close>: the first value of that name, or \<open>null\<close>.\<close>

definition searchParams_get :: "Request \<Rightarrow> string \<Rightarrow> string option" where
  "searchParams_get req name = map_of (searchParams req) name"

text \<open>\<open>if (x)\<close> on a value of type \<open>string | null\<close>: \<open>null\<close> and \<open>""\<close> are falsy.\<close>

definition truthy :: "string option \<Rightarrow> string option" where
  "truthy x = (case x of None \<Rightarrow> None | Some s \<Rightarrow> if s = [] then None else Some s)"

text \<open>
  What an \<open>async\<close> function can do besides returning: reject.  \<open>Throws\<close> is the
  rejected promise (an exception at the \<open>await\<close>).
\<close>

datatype 'a completion = Throws | Returns 'a

text \<open>
  The serialisation of a URL with query parameters set by \<open>searchParams.set\<close>.  The
  serializer percent-encodes the query values; the model copies them verbatim, which is
  what the serializer does for a decimal timestamp, a hexadecimal signature and an API
  key of letters and digits.  No property below depends on the encoding.
\<close>

definition href :: "string \<Rightarrow> (string \<times> string) list \<Rightarrow> string" where
  "href base query = base @ ''?'' @ join ''&'' (map (\<lambda>(k, v). k @ ''='' @ v) query)"

section \<open>The worker of serverCloudwareWorker.ts (lines 1-176)\<close>

definition createJsonResponse :: "(string \<times> jsvalue) list \<Rightarrow> nat \<Rightarrow> Response" where
  "createJsonResponse data statusCode =
     \<lparr>status = statusCode,
      resHeaders = [(''Content-Type'', ''application/json'')],
      body = Some data\<rparr>"

text \<open>
  The statements of \<open>isRateLimited\<close> after the key is computed (lines 39-50); they are
  the same in every revision of the worker.
\<close>

definition countRequest :: "string \<Rightarrow> KVNamespace \<Rightarrow> nat \<Rightarrow> bool \<times> KVNamespace" where
  "countRequest key kv now =
     (let requestCount = kv_get kv now key;
          count = (case truthy requestCount of None \<Rightarrow> Num 0 | Some s \<Rightarrow> parseInt s)
      in if jsnum_ge count RATE_LIMIT_MAX then (True, kv)
         else (False, kv_put kv now key (jsnum_succ_toString count) RATE_LIMIT_WINDOW_SEC))"

text \<open>Lines 35-37 of \<open>isRateLimited\<close>: the counter key.\<close>

definition rateLimitKey :: "Request \<Rightarrow> string" where
  "rateLimitKey req =
     (let ip = orDefault (headers req ''CF-Connecting-IP'') ''unknown'';
          ua = orDefault (headers req ''User-Agent'') ''unknown''
      in RATE_LIMIT_KEY_PREFIX @ ip @ ''_'' @ ua)"

definition isRateLimited :: "Request \<Rightarrow> KVNamespace \<Rightarrow> nat \<Rightarrow> bool \<times> KVNamespace" where
  "isRateLimited req kv now = countRequest (rateLimitKey req) kv now"

text \<open>The test \<open>/^[A-Z]{2}$/\<close>.\<close>

definition isUpperLetter :: "char \<Rightarrow> bool" where
  "isUpperLetter c = (CHR ''A'' \<le> c \<and> c \<le> CHR ''Z'')"

fun isTwoUpperLetters :: "string \<Rightarrow> bool" where
  "isTwoUpperLetters [a, b] = (isUpperLetter a \<and> isUpperLetter b)"
| "isTwoUpperLetters s = False"

definition invalidCountryMessage :: string where
  "invalidCountryMessage =
     ''Invalid country parameter. Must be a 2-letter uppercase country code.''"

definition validateQueryParams :: "(string \<Rightarrow> string) \<Rightarrow> Request \<Rightarrow> string option" where
  "validateQueryParams toUpperCase req =
     (case truthy (map_option toUpperCase (searchParams_get req ''country'')) of
        None \<Rightarrow> Some invalidCountryMessage
      | Some country \<Rightarrow>
          if \<not> isTwoUpperLetters country then Some invalidCountryMessage else None)"

definition fetchFromCloudinary :: "subtle \<Rightarrow> nat \<Rightarrow> string \<Rightarrow> Env \<Rightarrow> string completion" where
  "fetchFromCloudinary crypto now country env =
     (let filePath = ''flags/'' @ country @ ''.svg'';
          expiresAt = now div 1000 + TTL_SECONDS;
          cloudinaryUrl =
            ''https://res.cloudinary.com/'' @ CLOUDINARY_CLOUD_NAME env @ ''/image/upload/''
              @ filePath
      in case signatureHex crypto env expiresAt of
           None \<Rightarrow> Throws
         | Some sig \<Rightarrow>
             Returns (href cloudinaryUrl
               [(''api_key'', CLOUDINARY_API_KEY env),
                (''timestamp'', toString expiresAt),
                (''signature'', sig)]))"

definition fetchAndCacheFlag ::
  "subtle \<Rightarrow> Env \<Rightarrow> nat \<Rightarrow> string \<Rightarrow> KVNamespace \<Rightarrow> string \<times> KVNamespace" where
  "fetchAndCacheFlag crypto env now country kv =
     (case fetchFromCloudinary crypto now country env of
        Throws \<Rightarrow> ([], kv)
      | Returns secureUrl \<Rightarrow>
          if secureUrl = [] then ([], kv)
          else (secureUrl, kv_put kv now (''flag_'' @ country) secureUrl TTL_SECONDS))"

text \<open>
  \<open>handleGetFlag\<close> returns the response, the namespace, and the countries for which it
  started the background refresh of lines 145-154 (the call of \<open>fetchAndCacheFlag\<close>
  there begins before the response is returned).  \<open>backgroundRefresh\<close> is that task
  run to its end.
\<close>

definition handleGetFlag ::
  "(string \<Rightarrow> string) \<Rightarrow> subtle \<Rightarrow> Env \<Rightarrow> nat \<Rightarrow> Request \<Rightarrow> KVNamespace \<Rightarrow> Response \<times> KVNamespace \<times> string list" where
  "handleGetFlag toUpperCase crypto env now req kv =
     (case isRateLimited req kv now of (limited, kv1) \<Rightarrow>
        if limited then
          (createJsonResponse
             [(''success'', JBool False), (''message'', JString ''Rate limit exceeded.'')] 429,
           kv1, [])
        else
          (case validateQueryParams toUpperCase req of
             Some errorMessage \<Rightarrow>
               (createJsonResponse
                  [(''success'', JBool False), (''message'', JString errorMessage)] 400,
                kv1, [])
           | None \<Rightarrow>
               (let country =
                      toUpperCase (case searchParams_get req ''country'' of
                                     None \<Rightarrow> [] | Some c \<Rightarrow> c);
                    cacheKey = ''flag_'' @ country
                in case truthy (kv_get kv1 now cacheKey) of
                     Some cachedUrl \<Rightarrow>
                       (createJsonResponse
                          [(''success'', JBool True), (''secureUrl'', JString cachedUrl)] 200,
                        kv1, [country])
                   | None \<Rightarrow>
                       (case fetchAndCacheFlag crypto env now country kv1 of
                          (secureUrl, kv2) \<Rightarrow>
                            if secureUrl = [] then
                              (createJsonResponse
                                 [(''success'', JBool False),
                                  (''message'', JString ''Cloudinary fetch error'')] 500,
                               kv2, [])
                            else
                              (createJsonResponse
                                 [(''success'', JBool True), (''secureUrl'', JString secureUrl)]
                                 200,
                               kv2, [])))))"

definition backgroundRefresh ::
  "subtle \<Rightarrow> Env \<Rightarrow> nat \<Rightarrow> string \<Rightarrow> KVNamespace \<Rightarrow> KVNamespace" where
  "backgroundRefresh crypto env now country kv =
     (case fetchAndCacheFlag crypto env now country kv of
        (refreshedUrl, kv1) \<Rightarrow>
          if refreshedUrl \<noteq> [] then
            kv_put kv1 now (''flag_'' @ country) refreshedUrl TTL_SECONDS
          else kv1)"

text \<open>The exported \<open>fetch\<close> handler (lines 13-23).\<close>

definition fetch ::
  "(string \<Rightarrow> string) \<Rightarrow> subtle \<Rightarrow> Env \<Rightarrow> nat \<Rightarrow> Request \<Rightarrow> KVNamespace \<Rightarrow> Response \<times> KVNamespace \<times> string list" where
  "fetch toUpperCase crypto env now req kv =
     (if pathname req = ''/api/getFlag'' then handleGetFlag toUpperCase crypto env now req kv
      else (createJsonResponse
              [(''success'', JBool False), (''message'', JString ''Not Found'')] 404,
            kv, []))"

section \<open>The worker of part_002 (lines 1-201)\<close>

definition corsHeaders :: "(string \<times> string) list" where
  "corsHeaders =
     [(''Access-Control-Allow-Origin'', ''*''),
      (''Access-Control-Allow-Methods'', ''GET, OPTIONS''),
      (''Access-Control-Allow-Headers'', ''Content-Type'')]"

definition createJsonResponse_cors :: "(string \<times> jsvalue) list \<Rightarrow> nat \<Rightarrow> Response" where
  "createJsonResponse_cors data statusCode =
     \<lparr>status = statusCode,
      resHeaders = (''Content-Type'', ''application/json'') # corsHeaders,
      body = Some data\<rparr>"

definition getRateLimitKey :: "Request \<Rightarrow> string" where
  "getRateLimitKey req =
     (let ip = orDefault (headers req ''CF-Connecting-IP'') ''unknown_ip'';
          ua = orDefault (headers req ''User-Agent'') ''unknown_ua''
      in RATE_LIMIT_KEY_PREFIX @ ip @ ''_'' @ ua)"

definition isRateLimited_cors :: "Request \<Rightarrow> KVNamespace \<Rightarrow> nat \<Rightarrow> bool \<times> KVNamespace" where
  "isRateLimited_cors req kv now = countRequest (getRateLimitKey req) kv now"

text \<open>
  The global \<open>fetch(url)\<close> against the origin is a parameter: it rejects
  (\<open>NetworkError\<close>) or yields a response, of which the gateway reads \<open>response.ok\<close>.
  \<open>fetchSignedCloudinaryUrl\<close> also returns the list of the URLs it requested from the
  origin.
\<close>

datatype fetch_result = NetworkError | HttpResponse bool

definition fetchSignedCloudinaryUrl ::
  "subtle \<Rightarrow> (string \<Rightarrow> fetch_result) \<Rightarrow> nat \<Rightarrow> string \<Rightarrow> Env
     \<Rightarrow> string option completion \<times> string list" where
  "fetchSignedCloudinaryUrl crypto origin now country env =
     (let filePath = ''flags/'' @ country @ ''.svg'';
          expiresAt = now div 1000 + TTL_SECONDS;
          params = [(''timestamp'', toString expiresAt), (''public_id'', filePath)]
      in case generateCloudinarySignature crypto params env of
           None \<Rightarrow> (Throws, [])
         | Some signature \<Rightarrow>
             (let cloudinaryUrl =
                    href (''https://res.cloudinary.com/'' @ CLOUDINARY_CLOUD_NAME env
                            @ ''/image/upload/'' @ filePath)
                      [(''api_key'', CLOUDINARY_API_KEY env),
                       (''timestamp'', property params ''timestamp''),
                       (''signature'', signature)]
              in case origin cloudinaryUrl of
                   NetworkError \<Rightarrow> (Throws, [cloudinaryUrl])
                 | HttpResponse ok \<Rightarrow>
                     if \<not> ok then (Returns None, [cloudinaryUrl])
                     else (Returns (Some cloudinaryUrl), [cloudinaryUrl])))"

definition fetchAndCacheFlag_cors ::
  "subtle \<Rightarrow> (string \<Rightarrow> fetch_result) \<Rightarrow> Env \<Rightarrow> nat \<Rightarrow> string \<Rightarrow> KVNamespace
     \<Rightarrow> string \<times> KVNamespace \<times> string list" where
  "fetchAndCacheFlag_cors crypto origin env now country kv =
     (case fetchSignedCloudinaryUrl crypto origin now country env of
        (Throws, fetched) \<Rightarrow> ([], kv, fetched)
      | (Returns r, fetched) \<Rightarrow>
          (case truthy r of
             None \<Rightarrow> ([], kv, fetched)
           | Some secureUrl \<Rightarrow>
               (secureUrl, kv_put kv now (''flag_'' @ country) secureUrl TTL_SECONDS, fetched)))"

definition handleGetFlag_cors ::
  "(string \<Rightarrow> string) \<Rightarrow> subtle \<Rightarrow> (string \<Rightarrow> fetch_result) \<Rightarrow> Env \<Rightarrow> nat \<Rightarrow> Request \<Rightarrow> KVNamespace
     \<Rightarrow> Response \<times> KVNamespace \<times> string list" where
  "handleGetFlag_cors toUpperCase crypto origin env now req kv =
     (case isRateLimited_cors req kv now of (limited, kv1) \<Rightarrow>
        if limited then
          (createJsonResponse_cors
             [(''success'', JBool False), (''message'', JString ''Rate limit exceeded.'')] 429,
           kv1, [])
        else
          (case validateQueryParams toUpperCase req of
             Some errorMessage \<Rightarrow>
               (createJsonResponse_cors
                  [(''success'', JBool False), (''message'', JString errorMessage)] 400,
                kv1, [])
           | None \<Rightarrow>
               (let country =
                      toUpperCase (case searchParams_get req ''country'' of
                                     None \<Rightarrow> [] | Some c \<Rightarrow> c);
                    cacheKey = ''flag_'' @ country
                in case truthy (kv_get kv1 now cacheKey) of
                     Some cachedUrl \<Rightarrow>
                       (createJsonResponse_cors
                          [(''success'', JBool True), (''secureUrl'', JString cachedUrl)] 200,
                        kv1, [])
                   | None \<Rightarrow>
                       (case fetchAndCacheFlag_cors crypto origin env now country kv1 of
                          (secureUrl, kv2, fetched) \<Rightarrow>
                            if secureUrl = [] then
                              (createJsonResponse_cors
                                 [(''success'', JBool False),
                                  (''message'', JString ''Cloudinary fetch error'')] 500,
                               kv2, fetched)
                            else
                              (createJsonResponse_cors
                                 [(''success'', JBool True), (''secureUrl'', JString secureUrl)]
                                 200,
                               kv2, fetched)))))"

definition fetch_cors ::
  "(string \<Rightarrow> string) \<Rightarrow> subtle \<Rightarrow> (string \<Rightarrow> fetch_result) \<Rightarrow> Env \<Rightarrow> nat \<Rightarrow> Request \<Rightarrow> KVNamespace
     \<Rightarrow> Response \<times> KVNamespace \<times> string list" where
  "fetch_cors toUpperCase crypto origin env now req kv =
     (if httpMethod req = ''OPTIONS'' then
        (\<lparr>status = 204, resHeaders = corsHeaders, body = None\<rparr>, kv, [])
      else if pathname req = ''/api/getFlag'' then
        handleGetFlag_cors toUpperCase crypto origin env now req kv
      else (createJsonResponse_cors
              [(''success'', JBool False), (''message'', JString ''Not Found'')] 404,
            kv, []))"

section \<open>The Express server of serverCloudwareWorker.ts (lines 344-573)\<close>

text \<open>
  \<open>cloudinary.v2.url\<close> is a parameter: from the file path and \<open>expires_at\<close> it gives
  the signed URL, or throws (\<open>None\<close>).  The server's state is the LRU cache (every entry
  with the time it was stored), the map \<open>ongoingFetches\<close>, and the number of calls of
  \<open>cloudinary.v2.url\<close> made so far.  The cache's eviction by capacity is not modelled.

  The function passed to \<open>ongoingFetches.set\<close> is an \<open>async\<close> arrow function without
  any \<open>await\<close> in its body (lines 517-539), so its body, the \<open>finally\<close> block included,
  has run to its end when the call returns the promise: every promise stored in
  \<open>ongoingFetches\<close> is already settled.
\<close>

datatype promise = Fulfilled string | Rejected string

datatype reply = NoReply | Success200 string | Error500 string

record Server =
  cache :: "string \<rightharpoonup> (string \<times> nat \<times> nat)"
  ongoingFetches :: "string \<rightharpoonup> promise"
  originCalls :: nat

definition CACHE_TTL :: nat where
  "CACHE_TTL = 12 * 60 * 60 * 1000 - 5 * 60 * 1000"

text \<open>\<open>cache.get\<close> with \<open>allowStale: false\<close>: an entry older than the TTL is not returned.\<close>

definition cache_get :: "Server \<Rightarrow> nat \<Rightarrow> string \<Rightarrow> (string \<times> nat) option" where
  "cache_get srv now key =
     (case cache srv key of
        None \<Rightarrow> None
      | Some (url, expiresAt, storedAt) \<Rightarrow>
          if storedAt + CACHE_TTL < now then None else Some (url, expiresAt))"

text \<open>
  \<open>fetchAndCacheFlag\<close> (lines 506-549); \<open>res\<close> tells whether a response object was
  passed.  The result \<open>Throws\<close> is the exception of awaiting a rejected promise at line
  512, which is outside any \<open>try\<close>.
\<close>

definition fetchAndCacheFlag_express ::
  "(string \<Rightarrow> nat \<Rightarrow> string option) \<Rightarrow> nat \<Rightarrow> string \<Rightarrow> string \<Rightarrow> bool \<Rightarrow> Server
     \<Rightarrow> reply completion \<times> Server" where
  "fetchAndCacheFlag_express cloudinaryUrl now country cacheKey res srv =
     (case ongoingFetches srv cacheKey of
        Some (Fulfilled existingFetch) \<Rightarrow>
          (Returns (if res then Success200 existingFetch else NoReply), srv)
      | Some (Rejected err) \<Rightarrow> (Throws, srv)
      | None \<Rightarrow>
          (let filePath = ''flags/'' @ country @ ''.svg'';
               expiresInSeconds = 12 * 60 * 60;
               srv1 = srv\<lparr>originCalls := originCalls srv + 1\<rparr>;
               (fetchPromise, srv2) =
                 (case cloudinaryUrl filePath (now div 1000 + expiresInSeconds) of
                    Some signedUrl \<Rightarrow>
                      (Fulfilled signedUrl,
                       srv1\<lparr>cache := (cache srv1)
                               (cacheKey \<mapsto> (signedUrl, now + expiresInSeconds * 1000, now))\<rparr>)
                  | None \<Rightarrow> (Rejected ''Failed to generate flag URL'', srv1));
               srv3 = srv2\<lparr>ongoingFetches := (ongoingFetches srv2)(cacheKey := None)\<rparr>;
               srv4 = srv3\<lparr>ongoingFetches := (ongoingFetches srv3)(cacheKey \<mapsto> fetchPromise)\<rparr>
           in case fetchPromise of
                Fulfilled signedUrl \<Rightarrow>
                  (Returns (if res then Success200 signedUrl else NoReply), srv4)
              | Rejected err \<Rightarrow>
                  (Returns (if res then Error500 ''Failed to generate flag URL'' else NoReply),
                   srv4)))"

text \<open>
  \<open>getFlagHandler\<close> (lines 479-501) for a validated country.  An exception goes to the
  global error handler (lines 566-569), which answers 500.
\<close>

definition getFlagHandler ::
  "(string \<Rightarrow> nat \<Rightarrow> string option) \<Rightarrow> nat \<Rightarrow> string \<Rightarrow> Server \<Rightarrow> reply \<times> Server" where
  "getFlagHandler cloudinaryUrl now country srv =
     (let cacheKey = ''flag_'' @ country
      in case cache_get srv now cacheKey of
           Some (url, expiresAt) \<Rightarrow>
             if expiresAt \<le> now then
               (Success200 url,
                snd (fetchAndCacheFlag_express cloudinaryUrl now country cacheKey False srv))
             else (Success200 url, srv)
         | None \<Rightarrow>
             (case fetchAndCacheFlag_express cloudinaryUrl now country cacheKey True srv of
                (Returns r, srv1) \<Rightarrow> (r, srv1)
              | (Throws, srv1) \<Rightarrow> (Error500 ''Failed to generate flag URL'', srv1)))"

section \<open>Sequences of requests\<close>

text \<open>The same client sending one request at each of the given times.\<close>

fun requests :: "Request \<Rightarrow> KVNamespace \<Rightarrow> nat list \<Rightarrow> bool list \<times> KVNamespace" where
  "requests req kv [] = ([], kv)"
| "requests req kv (t # ts) =
     (case isRateLimited req kv t of
        (limited, kv1) \<Rightarrow>
          (case requests req kv1 ts of (ls, kv2) \<Rightarrow> (limited # ls, kv2)))"

text \<open>The times of \<open>n\<close> requests sent \<open>d\<close> milliseconds apart, the first at \<open>t\<close>.\<close>

fun everyMs :: "nat \<Rightarrow> nat \<Rightarrow> nat \<Rightarrow> nat list" where
  "everyMs d t 0 = []"
| "everyMs d t (Suc n) = t # everyMs d (t + d) n"

text \<open>
  The country \<open>handleGetFlag\<close> computes at line 139, and the body of a successful
  answer.
\<close>

definition requestedCountry :: "(string \<Rightarrow> string) \<Rightarrow> Request \<Rightarrow> string" where
  "requestedCountry toUpperCase req =
     toUpperCase (case searchParams_get req ''country'' of None \<Rightarrow> [] | Some c \<Rightarrow> c)"


text \<open>The characters of a lowercase hexadecimal string.\<close>

definition isLowerHexDigit :: "char \<Rightarrow> bool" where
  "isLowerHexDigit c = (c \<in> set ''0123456789abcdef'')"

text \<open>The length of the rate-limit window in milliseconds.\<close>

definition windowMs :: nat where
  "windowMs = RATE_LIMIT_WINDOW_SEC * 1000"

section \<open>Concrete inputs\<close>

text \<open>
  A stand-in for \<open>crypto.subtle\<close> whose digest yields the bytes AB 01 and whose HMAC
  yields the byte 0C, and an environment.
\<close>

definition toyCrypto :: subtle where
  "toyCrypto = \<lparr>subtle_digest = (\<lambda>alg data. Some [0xAB, 0x01]),
                 subtle_sign = (\<lambda>hash key data. Some [0x0C])\<rparr>"

definition demoEnv :: Env where
  "demoEnv = \<lparr>CLOUDINARY_CLOUD_NAME = ''demo'', CLOUDINARY_API_KEY = ''key'',
               CLOUDINARY_API_SECRET = ''secret''\<rparr>"

text \<open>Two requests for the flag of \<open>de\<close> from one address with different User-Agent values.\<close>

definition browserA :: Request where
  "browserA = \<lparr>httpMethod = ''GET'', pathname = ''/api/getFlag'', searchParams = [(''country'', ''de'')],
                 headers = [''CF-Connecting-IP'' \<mapsto> ''10.0.0.1'', ''User-Agent'' \<mapsto> ''A'']\<rparr>"

definition browserB :: Request where
  "browserB = \<lparr>httpMethod = ''GET'', pathname = ''/api/getFlag'', searchParams = [(''country'', ''de'')],
                 headers = [''CF-Connecting-IP'' \<mapsto> ''10.0.0.1'', ''User-Agent'' \<mapsto> ''B'']\<rparr>"

text \<open>
  A namespace in which the counter of the client without headers stands at the maximum,
  and a \<open>crypto.subtle\<close> whose operations reject.
\<close>

definition exhausted :: KVNamespace where
  "exhausted = [''rl_unknown_unknown'' \<mapsto> (''100'', 900000)]"

definition failingCrypto :: subtle where
  "failingCrypto = \<lparr>subtle_digest = (\<lambda>alg data. None),
                     subtle_sign = (\<lambda>hash key data. None)\<rparr>"

text \<open>
  The body of the Router's answer to a failed resolution, and the URL the revision of
  part_002 builds for \<open>DE\<close> at time 0 with the stand-in \<open>crypto.subtle\<close>.
\<close>

definition fetchErrorResponse :: "(string \<times> jsvalue) list" where
  "fetchErrorResponse = [(''success'', JBool False), (''message'', JString ''Cloudinary fetch error'')]"

definition flagUrl :: string where
  "flagUrl = ''https://res.cloudinary.com/demo/image/upload/flags/DE.svg?api_key=key&timestamp=43200&signature=0c''"





text \<open>
  A preflight request; a stand-in for \<open>cloudinary.v2.url\<close>; the Express server before
  any request and after the first request for \<open>DE\<close> at time 0.
\<close>

definition preflight :: Request where
  "preflight = \<lparr>httpMethod = ''OPTIONS'', pathname = ''/api/getFlag'', searchParams = [],
                  headers = Map.empty\<rparr>"

definition signer :: "string \<Rightarrow> nat \<Rightarrow> string option" where
  "signer filePath expires_at = Some (filePath @ ''?expires_at='' @ toString expires_at)"

definition emptyServer :: Server where
  "emptyServer = \<lparr>cache = Map.empty, ongoingFetches = Map.empty, originCalls = 0\<rparr>"

definition serverAfterFirst :: Server where
  "serverAfterFirst =
     \<lparr>cache = [''flag_DE'' \<mapsto> (''flags/DE.svg?expires_at=43200'', 43200000, 0)],
      ongoingFetches = [''flag_DE'' \<mapsto> Fulfilled ''flags/DE.svg?expires_at=43200''],
      originCalls = 1\<rparr>"

text \<open>A request without headers and without query parameters.\<close>

definition anonymous :: Request where
  "anonymous = \<lparr>httpMethod = ''GET'', pathname = ''/api/getFlag'', searchParams = [],
                 headers = Map.empty\<rparr>"

section \<open>Properties of the signature generators\<close>




lemma join_empty_sep: "join [] xs = concat xs"
  by (induction "[] :: string" xs rule: join.induct) simp_all

lemma hexDigit_lower: "d < 16 \<Longrightarrow> isLowerHexDigit (hexDigit d)"
  unfolding hexDigit_def isLowerHexDigit_def by (rule nth_mem) simp

lemma byte_hex:
  "list_all isLowerHexDigit (padStart 2 (CHR ''0'') (toString16 b)) \<and>
   length (padStart 2 (CHR ''0'') (toString16 b)) = 2"
proof -
  have "unat b < 2 ^ LENGTH(8)" by (rule unsigned_less)
  then have lt: "unat b < 256" by simp
  then have "unat b div 16 < 16" by simp
  moreover have "unat b mod 16 < 16" by simp
  moreover have "isLowerHexDigit (CHR ''0'')" by (simp add: isLowerHexDigit_def)
  ultimately show ?thesis
    using hexDigit_lower [of "unat b div 16"] hexDigit_lower [of "unat b mod 16"]
      hexDigit_lower [of "unat b"]
    by (simp add: padStart_def toString16_def)
qed

lemma toHex_lowercase_hex:
  "list_all isLowerHexDigit (toHex bytes) \<and> length (toHex bytes) = 2 * length bytes"
  by (induction bytes) (simp_all add: toHex_def join_empty_sep byte_hex)



text \<open>
  Claim C1 fails on \<open>fetchFromCloudinary\<close> of serverCloudwareWorker.ts.  Its signature
  is the hexadecimal form of the plain SHA-256 digest of \<open>timestamp=<expiresAt>\<close>
  followed by the secret; it does not depend on the HMAC operation at all.  At the country
  \<open>DE\<close> and time 0, with a digest operation that yields the bytes AB 01 and an HMAC
  operation that yields the byte 0C, the URL carries the signature \<open>ab01\<close>, while the
  HMAC-based \<open>generateCloudinarySignature\<close> of part_002 and part_004 yields \<open>0c\<close>.
\<close>

theorem signature_is_bare_digest:
  "signatureHex crypto env expiresAt =
     map_option toHex
       (subtle_digest crypto ''SHA-256''
          (''timestamp='' @ toString expiresAt @ CLOUDINARY_API_SECRET env)) \<and>
   signatureHex (crypto\<lparr>subtle_sign := hmac\<rparr>) env expiresAt = signatureHex crypto env expiresAt \<and>
   fetchFromCloudinary toyCrypto 0 ''DE'' demoEnv =
     Returns ''https://res.cloudinary.com/demo/image/upload/flags/DE.svg?api_key=key&timestamp=43200&signature=ab01'' \<and>
   generateCloudinarySignature toyCrypto [(''timestamp'', ''43200'')] demoEnv = Some ''0c''"
proof (intro conjI)
  show "fetchFromCloudinary toyCrypto 0 ''DE'' demoEnv =
     Returns ''https://res.cloudinary.com/demo/image/upload/flags/DE.svg?api_key=key&timestamp=43200&signature=ab01''"
    by (simp add: fetchFromCloudinary_def signatureHex_def toyCrypto_def demoEnv_def
        TTL_SECONDS_def href_def toHex_def toString16_def padStart_def hexDigit_def
        toString.simps digitChar_def)
  show "generateCloudinarySignature toyCrypto [(''timestamp'', ''43200'')] demoEnv = Some ''0c''"
    by (simp add: generateCloudinarySignature_def toyCrypto_def toHex_def toString16_def
        padStart_def hexDigit_def)
qed (simp_all add: signatureHex_def split: option.splits)

section \<open>The rate limiter\<close>

lemma digit_cases:
  assumes "d < 10"
  shows "isDigit (digitChar d) \<and> digitVal (digitChar d) = d"
proof -
  have "d \<in> {0, 1, 2, 3, 4, 5, 6, 7, 8, 9}" using assms by auto
  then show ?thesis
    by (auto simp: digitChar_def isDigit_def digitVal_def)
qed

lemma toString_digits: "list_all isDigit (toString n)"
proof (induction n rule: toString.induct)
  case (1 n)
  show ?case
  proof (cases "n < 10")
    case True
    then show ?thesis by (subst toString.simps) (simp add: digit_cases)
  next
    case False
    then show ?thesis using 1 by (subst toString.simps) (simp add: digit_cases)
  qed
qed

lemma toString_nonempty: "toString n \<noteq> []"
  by (subst toString.simps) simp

lemma toString_value: "foldl (\<lambda>acc c. 10 * acc + digitVal c) 0 (toString n) = n"
proof (induction n rule: toString.induct)
  case (1 n)
  show ?case
  proof (cases "n < 10")
    case True
    then show ?thesis by (subst toString.simps) (simp add: digit_cases)
  next
    case False
    then show ?thesis using 1 by (subst toString.simps) (simp add: digit_cases)
  qed
qed

lemma parseInt_toString: "parseInt (toString n) = Num n"
proof -
  have "\<forall>c \<in> set (toString n). isDigit c"
    using toString_digits [of n] by (simp add: list_all_iff)
  then have tw: "takeWhile isDigit (toString n) = toString n"
    by (simp only: takeWhile_eq_all_conv)
  show ?thesis
    unfolding parseInt_def Let_def tw
    by (simp add: toString_nonempty toString_value)
qed


lemma toString_1: "toString (Suc 0) = ''1''"
  by (subst toString.simps) (simp add: digitChar_def)

lemma countRequest_absent:
  assumes "kv_get kv now key = None"
  shows "countRequest key kv now = (False, kv(key \<mapsto> (''1'', now + windowMs)))"
  using assms
  by (simp add: countRequest_def truthy_def kv_put_def RATE_LIMIT_MAX_def toString_1 windowMs_def)

lemma countRequest_live:
  assumes "kv key = Some (toString c, e)" and "now < e"
  shows "countRequest key kv now =
           (if RATE_LIMIT_MAX \<le> c then (True, kv)
            else (False, kv(key \<mapsto> (toString (c + 1), now + windowMs))))"
proof -
  have "kv_get kv now key = Some (toString c)"
    using assms by (simp add: kv_get_def)
  then show ?thesis
    by (simp add: countRequest_def truthy_def toString_nonempty parseInt_toString kv_put_def
        windowMs_def)
qed

lemma countRequest_limited: "fst (countRequest key kv now) \<Longrightarrow> snd (countRequest key kv now) = kv"
  by (simp add: countRequest_def Let_def split: if_splits)

lemma countRequest_admitted:
  "\<not> fst (countRequest key kv now) \<Longrightarrow>
     \<exists>v. snd (countRequest key kv now) = kv(key \<mapsto> (v, now + windowMs))"
  by (auto simp: countRequest_def Let_def kv_put_def windowMs_def split: if_splits)

lemma countRequest_other:
  "k \<noteq> key \<Longrightarrow> snd (countRequest key kv now) k = kv k"
  by (simp add: countRequest_def Let_def kv_put_def)

lemma requests_Cons:
  "requests req kv (t # ts) =
     (fst (isRateLimited req kv t) # fst (requests req (snd (isRateLimited req kv t)) ts),
      snd (requests req (snd (isRateLimited req kv t)) ts))"
  by (simp split: prod.splits)

lemma requests_append:
  "requests req kv (xs @ ys) =
     (fst (requests req kv xs) @ fst (requests req (snd (requests req kv xs)) ys),
      snd (requests req (snd (requests req kv xs)) ys))"
  by (induction xs arbitrary: kv) (auto split: prod.splits)

lemma requests_admitted:
  assumes "kv (rateLimitKey req) = Some (toString c, e)"
      and "t0 + windowMs \<le> e"
      and "\<forall>t \<in> set ts. t0 \<le> t \<and> t < t0 + windowMs"
      and "c + length ts \<le> RATE_LIMIT_MAX"
  shows "fst (requests req kv ts) = replicate (length ts) False \<and>
         snd (requests req kv ts) (rateLimitKey req) =
           Some (toString (c + length ts), if ts = [] then e else last ts + windowMs)"
  using assms
proof (induction ts arbitrary: kv c e)
  case Nil
  then show ?case by auto
next
  case (Cons t ts)
  let ?key = "rateLimitKey req"
  have live: "t < e" using Cons.prems by auto
  have c: "\<not> RATE_LIMIT_MAX \<le> c" using Cons.prems by auto
  have step: "isRateLimited req kv t = (False, kv(?key \<mapsto> (toString (c + 1), t + windowMs)))"
    using countRequest_live [of kv ?key c e t] Cons.prems(1) live c
    by (simp add: isRateLimited_def)
  let ?kv1 = "kv(?key \<mapsto> (toString (c + 1), t + windowMs))"
  have ih: "fst (requests req ?kv1 ts) = replicate (length ts) False \<and>
         snd (requests req ?kv1 ts) ?key =
           Some (toString (c + 1 + length ts), if ts = [] then t + windowMs else last ts + windowMs)"
  proof (rule Cons.IH [of ?kv1 "c + 1" "t + windowMs"])
    show "?kv1 ?key = Some (toString (c + 1), t + windowMs)" by simp
    show "t0 + windowMs \<le> t + windowMs" using Cons.prems(3) by simp
    show "\<forall>t \<in> set ts. t0 \<le> t \<and> t < t0 + windowMs" using Cons.prems(3) by simp
    show "c + 1 + length ts \<le> RATE_LIMIT_MAX" using Cons.prems(4) by simp
  qed
  show ?case
    using ih by (simp only: requests_Cons step fst_conv snd_conv) simp
qed

lemma first_hundred:
  assumes fresh: "kv_get kv t0 (rateLimitKey req) = None"
      and inwin: "\<forall>t \<in> set ts. t0 \<le> t \<and> t < t0 + windowMs"
      and n: "length ts < RATE_LIMIT_MAX"
  shows "fst (requests req kv (t0 # ts)) = replicate (Suc (length ts)) False \<and>
         snd (requests req kv (t0 # ts)) (rateLimitKey req) =
           Some (toString (Suc (length ts)), last (t0 # ts) + windowMs)"
proof -
  let ?key = "rateLimitKey req"
  let ?kv1 = "kv(?key \<mapsto> (''1'', t0 + windowMs))"
  have step: "isRateLimited req kv t0 = (False, ?kv1)"
    using countRequest_absent [OF fresh] by (simp add: isRateLimited_def)
  have "fst (requests req ?kv1 ts) = replicate (length ts) False \<and>
         snd (requests req ?kv1 ts) ?key =
           Some (toString (1 + length ts), if ts = [] then t0 + windowMs else last ts + windowMs)"
  proof (rule requests_admitted [of ?kv1 req 1 "t0 + windowMs" t0 ts])
    show "?kv1 ?key = Some (toString 1, t0 + windowMs)" by (simp add: toString_1)
    show "t0 + windowMs \<le> t0 + windowMs" by simp
    show "\<forall>t \<in> set ts. t0 \<le> t \<and> t < t0 + windowMs" by (rule inwin)
    show "1 + length ts \<le> RATE_LIMIT_MAX" using n by simp
  qed
  then show ?thesis
    by (simp only: requests_Cons step fst_conv snd_conv) simp
qed

lemma rejected_at_maximum:
  assumes "kv (rateLimitKey req) = Some (toString RATE_LIMIT_MAX, e)" and "t < e"
  shows "isRateLimited req kv t = (True, kv)"
  using countRequest_live [of kv "rateLimitKey req" RATE_LIMIT_MAX e t] assms
  by (simp add: isRateLimited_def)

lemma admitted_after_expiry:
  assumes "\<not> fst (isRateLimited req kv0 s)" and "s + windowMs \<le> t"
  shows "isRateLimited req (snd (isRateLimited req kv0 s)) t =
           (False, (snd (isRateLimited req kv0 s))(rateLimitKey req \<mapsto> (''1'', t + windowMs)))"
proof -
  obtain v where kv1: "snd (isRateLimited req kv0 s) = kv0(rateLimitKey req \<mapsto> (v, s + windowMs))"
    using countRequest_admitted [of "rateLimitKey req" kv0 s] assms(1)
    by (auto simp: isRateLimited_def)
  have "kv_get (snd (isRateLimited req kv0 s)) t (rateLimitKey req) = None"
    using assms(2) by (simp add: kv1 kv_get_def)
  then show ?thesis
    using countRequest_absent by (simp add: isRateLimited_def)
qed

lemma hundred_first_rejected:
  assumes fresh: "kv_get kv t0 (rateLimitKey req) = None"
      and inwin: "\<forall>t \<in> set (ts @ [t101]). t0 \<le> t \<and> t < t0 + windowMs"
      and n: "Suc (length ts) = RATE_LIMIT_MAX"
  shows "fst (requests req kv (t0 # ts)) = replicate RATE_LIMIT_MAX False \<and>
         isRateLimited req (snd (requests req kv (t0 # ts))) t101 =
           (True, snd (requests req kv (t0 # ts)))"
proof -
  let ?kv100 = "snd (requests req kv (t0 # ts))"
  have inwin': "\<forall>t \<in> set ts. t0 \<le> t \<and> t < t0 + windowMs"
    using inwin by simp
  have h: "fst (requests req kv (t0 # ts)) = replicate (Suc (length ts)) False \<and>
         ?kv100 (rateLimitKey req) =
           Some (toString (Suc (length ts)), last (t0 # ts) + windowMs)"
    by (rule first_hundred [OF fresh inwin']) (use n in simp)
  have "last (t0 # ts) \<in> set (t0 # ts)" by (rule last_in_set) simp
  then have "t0 \<le> last (t0 # ts)" using inwin' by auto
  then have live: "t101 < last (t0 # ts) + windowMs"
    using inwin by simp
  have "isRateLimited req ?kv100 t101 = (True, ?kv100)"
    by (rule rejected_at_maximum [where e = "last (t0 # ts) + windowMs"])
       (use h live n in simp_all)
  then show ?thesis
    using h n by simp
qed

lemma requests_hundred_one:
  assumes fresh: "kv_get kv t0 (rateLimitKey req) = None"
      and inwin: "\<forall>t \<in> set (ts @ [t101]). t0 \<le> t \<and> t < t0 + windowMs"
      and n: "Suc (length ts) = RATE_LIMIT_MAX"
  shows "requests req kv (t0 # ts @ [t101]) =
           (replicate RATE_LIMIT_MAX False @ [True], snd (requests req kv (t0 # ts)))"
proof -
  let ?kv100 = "snd (requests req kv (t0 # ts))"
  note h = hundred_first_rejected [OF assms]
  then have "requests req ?kv100 [t101] = ([True], ?kv100)"
    by simp
  moreover have "requests req kv (t0 # ts @ [t101]) =
     (fst (requests req kv (t0 # ts)) @ fst (requests req ?kv100 [t101]),
      snd (requests req ?kv100 [t101]))"
    using requests_append [of req kv "t0 # ts" "[t101]"] by simp
  ultimately show ?thesis
    using h by simp
qed

lemma handleGetFlag_limited:
  assumes "isRateLimited req kv now = (True, kv)"
  shows "handleGetFlag up crypto env now req kv =
           (createJsonResponse
              [(''success'', JBool False), (''message'', JString ''Rate limit exceeded.'')] 429,
            kv, [])"
  using assms by (simp add: handleGetFlag_def)

text \<open>
  What the rate limiter does for a client whose counter is absent or expired and who sends
  101 requests within the 15 minutes that follow its first request: the first 100 are
  admitted, the 101st is rejected, answered 429, and leaves the namespace as the 100th left
  it.  The counter's expiry is renewed by every admitted request: the count starts again
  at 1 only for a request that arrives at least 15 minutes after the last admitted one.
\<close>

lemma rate_limiter_quota:
  assumes fresh: "kv_get kv t0 (rateLimitKey req) = None"
      and inwin: "\<forall>t \<in> set (ts @ [t101]). t0 \<le> t \<and> t < t0 + RATE_LIMIT_WINDOW_SEC * 1000"
      and n: "length ts = 99"
  shows "requests req kv (t0 # ts @ [t101]) =
           (replicate 100 False @ [True], snd (requests req kv (t0 # ts))) \<and>
         handleGetFlag up crypto env t101 req (snd (requests req kv (t0 # ts))) =
           (createJsonResponse
              [(''success'', JBool False), (''message'', JString ''Rate limit exceeded.'')] 429,
            snd (requests req kv (t0 # ts)), []) \<and>
         (\<forall>s t kv0. \<not> fst (isRateLimited req kv0 s) \<and> s + RATE_LIMIT_WINDOW_SEC * 1000 \<le> t \<longrightarrow>
            isRateLimited req (snd (isRateLimited req kv0 s)) t =
              (False, (snd (isRateLimited req kv0 s))
                        (rateLimitKey req \<mapsto> (''1'', t + RATE_LIMIT_WINDOW_SEC * 1000))))"
proof (intro conjI allI impI)
  have inwin': "\<forall>t \<in> set (ts @ [t101]). t0 \<le> t \<and> t < t0 + windowMs"
    using inwin by (simp add: windowMs_def)
  have n': "Suc (length ts) = RATE_LIMIT_MAX"
    using n by (simp add: RATE_LIMIT_MAX_def)
  show "requests req kv (t0 # ts @ [t101]) =
           (replicate 100 False @ [True], snd (requests req kv (t0 # ts)))"
    using requests_hundred_one [OF fresh inwin' n'] by (simp add: RATE_LIMIT_MAX_def)
  show "handleGetFlag up crypto env t101 req (snd (requests req kv (t0 # ts))) =
           (createJsonResponse
              [(''success'', JBool False), (''message'', JString ''Rate limit exceeded.'')] 429,
            snd (requests req kv (t0 # ts)), [])"
    using hundred_first_rejected [OF fresh inwin' n'] by (intro handleGetFlag_limited) simp
next
  fix s t kv0
  assume "\<not> fst (isRateLimited req kv0 s) \<and> s + RATE_LIMIT_WINDOW_SEC * 1000 \<le> t"
  then show "isRateLimited req (snd (isRateLimited req kv0 s)) t =
              (False, (snd (isRateLimited req kv0 s))
                        (rateLimitKey req \<mapsto> (''1'', t + RATE_LIMIT_WINDOW_SEC * 1000)))"
    using admitted_after_expiry [of req kv0 s t] by (simp add: windowMs_def)
qed

text \<open>The lemma at a client without headers: requests at times 0, 5 (99 times) and 7.\<close>

lemma rate_limiter_quota_witness:
  "kv_get Map.empty 0 (rateLimitKey anonymous) = None \<and>
   list_all (\<lambda>t. (0::nat) \<le> t \<and> t < 0 + RATE_LIMIT_WINDOW_SEC * 1000) (replicate 99 5 @ [7]) \<and>
   length (replicate 99 (5::nat)) = 99 \<and>
   requests anonymous Map.empty (0 # replicate 99 5 @ [7]) =
     (replicate 100 False @ [True], snd (requests anonymous Map.empty (0 # replicate 99 5))) \<and>
   status (fst (handleGetFlag asciiUpperCase toyCrypto demoEnv 7 anonymous
                  (snd (requests anonymous Map.empty (0 # replicate 99 5))))) = 429 \<and>
   \<not> fst (isRateLimited anonymous Map.empty 0) \<and>
   isRateLimited anonymous (snd (isRateLimited anonymous Map.empty 0)) 900000 =
     (False, (snd (isRateLimited anonymous Map.empty 0))
               (rateLimitKey anonymous \<mapsto> (''1'', 1800000)))"
proof -
  have a: "kv_get Map.empty 0 (rateLimitKey anonymous) = None"
    by (simp add: kv_get_def)
  have b: "\<forall>t \<in> set (replicate 99 5 @ [7]). (0::nat) \<le> t \<and> t < 0 + RATE_LIMIT_WINDOW_SEC * 1000"
    by (simp add: RATE_LIMIT_WINDOW_SEC_def)
  have c: "length (replicate 99 (5::nat)) = 99" by simp
  have d: "\<not> fst (isRateLimited anonymous Map.empty 0)"
    by (simp add: isRateLimited_def countRequest_def kv_get_def truthy_def RATE_LIMIT_MAX_def)
  note r = rate_limiter_quota [OF a b c, of asciiUpperCase toyCrypto demoEnv]
  from r have e: "isRateLimited anonymous (snd (isRateLimited anonymous Map.empty 0)) 900000 =
     (False, (snd (isRateLimited anonymous Map.empty 0))
               (rateLimitKey anonymous \<mapsto> (''1'', 1800000)))"
    using d by (simp add: RATE_LIMIT_WINDOW_SEC_def)
  from r have f: "status (fst (handleGetFlag asciiUpperCase toyCrypto demoEnv 7 anonymous
                  (snd (requests anonymous Map.empty (0 # replicate 99 5))))) = 429"
    by (simp add: createJsonResponse_def)
  have b': "list_all (\<lambda>t. (0::nat) \<le> t \<and> t < 0 + RATE_LIMIT_WINDOW_SEC * 1000)
              (replicate 99 5 @ [7])"
    using b by (simp only: list_all_iff)
  show ?thesis using a b' c d e f r by blast
qed

lemma requests_spaced:
  assumes "kv (rateLimitKey req) = Some (toString c, e)"
      and "t < e" and "d < windowMs" and "c + n \<le> RATE_LIMIT_MAX"
  shows "fst (requests req kv (everyMs d t n)) = replicate n False \<and>
         snd (requests req kv (everyMs d t n)) (rateLimitKey req) =
           Some (toString (c + n), if n = 0 then e else t + (n - 1) * d + windowMs)"
  using assms
proof (induction n arbitrary: kv c e t)
  case 0
  then show ?case by simp
next
  case (Suc n)
  let ?key = "rateLimitKey req"
  let ?kv1 = "kv(?key \<mapsto> (toString (c + 1), t + windowMs))"
  have c: "\<not> RATE_LIMIT_MAX \<le> c" using Suc.prems by auto
  have step: "isRateLimited req kv t = (False, ?kv1)"
    using countRequest_live [of kv ?key c e t] Suc.prems(1,2) c
    by (simp add: isRateLimited_def)
  have ih: "fst (requests req ?kv1 (everyMs d (t + d) n)) = replicate n False \<and>
         snd (requests req ?kv1 (everyMs d (t + d) n)) ?key =
           Some (toString (c + 1 + n),
                 if n = 0 then t + windowMs else t + d + (n - 1) * d + windowMs)"
  proof (rule Suc.IH [of ?kv1 "c + 1" "t + windowMs" "t + d"])
    show "?kv1 ?key = Some (toString (c + 1), t + windowMs)" by simp
    show "t + d < t + windowMs" using Suc.prems(3) by simp
    show "d < windowMs" by (rule Suc.prems(3))
    show "c + 1 + n \<le> RATE_LIMIT_MAX" using Suc.prems(4) by simp
  qed
  have e: "(if n = 0 then t + windowMs else t + d + (n - 1) * d + windowMs) =
             t + (Suc n - 1) * d + windowMs"
    by (cases n) simp_all
  show ?case
    using ih unfolding e
    by (simp only: everyMs.simps requests_Cons step fst_conv snd_conv) simp
qed

text \<open>
  Claim C3 fails on \<open>isRateLimited\<close>: the window is not fixed.  Every admitted request
  writes the counter anew with an expiry of 15 minutes, so the counter never expires while
  the client keeps sending.  First scenario: a request at time 0 and 99 more at 899999 ms
  are admitted; the request at 900000 ms, when the 15-minute window of the first request
  has elapsed, is rejected.  Second scenario: a client sends one request every 899999 ms,
  never more than two within any 15 minutes; its first 100 requests are admitted and its
  101st, more than 24 hours after the first, is rejected and answered 429.
\<close>

theorem rate_limit_window_slides:
  "0 + RATE_LIMIT_WINDOW_SEC * 1000 \<le> (900000::nat) \<and>
   fst (requests anonymous Map.empty (0 # replicate 99 899999)) = replicate 100 False \<and>
   fst (isRateLimited anonymous (snd (requests anonymous Map.empty (0 # replicate 99 899999)))
          900000) \<and>
   fst (requests anonymous Map.empty (0 # everyMs 899999 899999 99)) = replicate 100 False \<and>
   fst (isRateLimited anonymous (snd (requests anonymous Map.empty (0 # everyMs 899999 899999 99)))
          89999900) \<and>
   status (fst (handleGetFlag asciiUpperCase toyCrypto demoEnv 89999900 anonymous
                  (snd (requests anonymous Map.empty (0 # everyMs 899999 899999 99))))) = 429"
proof -
  let ?kv = "snd (requests anonymous Map.empty (0 # replicate 99 899999))"
  let ?key = "rateLimitKey anonymous"
  have a: "kv_get Map.empty 0 ?key = None"
    by (simp add: kv_get_def)
  have h: "fst (requests anonymous Map.empty (0 # replicate 99 899999)) =
             replicate (Suc (length (replicate 99 (899999::nat)))) False \<and>
           ?kv ?key =
             Some (toString (Suc (length (replicate 99 (899999::nat)))),
                   last (0 # replicate 99 899999) + windowMs)"
    by (rule first_hundred [OF a])
       (simp_all add: windowMs_def RATE_LIMIT_WINDOW_SEC_def RATE_LIMIT_MAX_def)
  have first: "isRateLimited anonymous ?kv 900000 = (True, ?kv)"
    by (rule rejected_at_maximum [where e = "last (0 # replicate 99 899999) + windowMs"])
       (use h in \<open>simp_all add: RATE_LIMIT_MAX_def windowMs_def RATE_LIMIT_WINDOW_SEC_def\<close>)
  let ?kv1 = "[?key \<mapsto> (''1'', 0 + windowMs)] :: KVNamespace"
  let ?slow = "snd (requests anonymous ?kv1 (everyMs 899999 899999 99))"
  have step: "isRateLimited anonymous Map.empty 0 = (False, ?kv1)"
    using countRequest_absent [OF a] by (simp add: isRateLimited_def)
  have s: "fst (requests anonymous ?kv1 (everyMs 899999 899999 99)) = replicate 99 False \<and>
           ?slow ?key =
             Some (toString (1 + 99),
                   if (99::nat) = 0 then 0 + windowMs else 899999 + (99 - 1) * 899999 + windowMs)"
    by (rule requests_spaced)
       (simp_all add: toString_1 windowMs_def RATE_LIMIT_WINDOW_SEC_def RATE_LIMIT_MAX_def)
  have whole: "requests anonymous Map.empty (0 # everyMs 899999 899999 99) =
                 (False # fst (requests anonymous ?kv1 (everyMs 899999 899999 99)), ?slow)"
    by (simp only: requests_Cons step fst_conv snd_conv)
  have second: "isRateLimited anonymous ?slow 89999900 = (True, ?slow)"
    by (rule rejected_at_maximum [where e = "899999 + (99 - 1) * 899999 + windowMs"])
       (use s in \<open>simp_all add: RATE_LIMIT_MAX_def windowMs_def RATE_LIMIT_WINDOW_SEC_def\<close>)
  have answer: "status (fst (handleGetFlag asciiUpperCase toyCrypto demoEnv 89999900 anonymous ?slow))
                  = 429"
    using handleGetFlag_limited [OF second] by (simp add: createJsonResponse_def)
  have "(100::nat) = Suc 99" by simp
  then have hundred: "replicate 100 False = False # replicate 99 False"
    by (metis replicate_Suc)
  have w1: "fst (requests anonymous Map.empty (0 # everyMs 899999 899999 99)) =
              replicate 100 False"
    using s by (simp only: whole fst_conv hundred)
  have w2: "snd (requests anonymous Map.empty (0 # everyMs 899999 899999 99)) = ?slow"
    by (simp only: whole snd_conv)
  have f1: "fst (requests anonymous Map.empty (0 # replicate 99 899999)) = replicate 100 False"
    using h by simp
  have f0: "0 + RATE_LIMIT_WINDOW_SEC * 1000 \<le> (900000::nat)"
    by (simp add: RATE_LIMIT_WINDOW_SEC_def)
  show ?thesis
    using f0 f1 first w1 second answer by (simp only: w2 fst_conv simp_thms)
qed

lemma rateLimitKey_eq:
  "rateLimitKey req =
     ''rl_'' @ orDefault (headers req ''CF-Connecting-IP'') ''unknown'' @ ''_''
       @ orDefault (headers req ''User-Agent'') ''unknown''"
  by (simp add: rateLimitKey_def RATE_LIMIT_KEY_PREFIX_def)

lemma split_at_underscore:
  assumes "CHR ''_'' \<notin> set a" and "CHR ''_'' \<notin> set b" and "a @ ''_'' @ x = b @ ''_'' @ y"
  shows "a = b \<and> x = y"
proof -
  have "takeWhile (\<lambda>c. c \<noteq> CHR ''_'') (a @ CHR ''_'' # x) = a"
    using assms(1) by (auto simp: takeWhile_tail)
  moreover have "takeWhile (\<lambda>c. c \<noteq> CHR ''_'') (b @ CHR ''_'' # y) = b"
    using assms(2) by (auto simp: takeWhile_tail)
  ultimately have "a = b" using assms(3) by simp
  then show ?thesis using assms(3) by simp
qed

lemma requests_other_key:
  assumes "k \<noteq> rateLimitKey req"
  shows "snd (requests req kv ts) k = kv k"
proof (induction ts arbitrary: kv)
  case Nil
  show ?case by simp
next
  case (Cons t ts)
  show ?case
    using Cons.IH [of "snd (isRateLimited req kv t)"] countRequest_other [OF assms]
    by (simp only: requests_Cons snd_conv isRateLimited_def)
qed

lemma countRequest_cong:
  assumes "kv key = kv' key"
  shows "fst (countRequest key kv now) = fst (countRequest key kv' now)"
  using assms by (simp add: countRequest_def kv_get_def Let_def)

text \<open>
  Claim C10.  The counter key is \<open>rl_\<close>, the client address, an underscore and the
  User-Agent, with \<open>unknown\<close> in place of an absent (or empty) header.  Two requests
  from the same address with different User-Agent values (and two requests from different
  addresses, as long as no address contains an underscore) have different keys, and the
  requests of the one never change the counter or the admission of the other: each pair
  has its own quota.
\<close>

theorem counter_per_ip_and_user_agent:
  assumes ip1: "ip1 = orDefault (headers r1 ''CF-Connecting-IP'') ''unknown''"
      and ua1: "ua1 = orDefault (headers r1 ''User-Agent'') ''unknown''"
      and ip2: "ip2 = orDefault (headers r2 ''CF-Connecting-IP'') ''unknown''"
      and ua2: "ua2 = orDefault (headers r2 ''User-Agent'') ''unknown''"
      and ips: "ip1 = ip2 \<or> (CHR ''_'' \<notin> set ip1 \<and> CHR ''_'' \<notin> set ip2)"
      and differ: "(ip1, ua1) \<noteq> (ip2, ua2)"
  shows "rateLimitKey r1 = ''rl_'' @ ip1 @ ''_'' @ ua1 \<and>
         rateLimitKey r2 = ''rl_'' @ ip2 @ ''_'' @ ua2 \<and>
         rateLimitKey r1 \<noteq> rateLimitKey r2 \<and>
         kv_get (snd (requests r1 kv ts)) t (rateLimitKey r2) = kv_get kv t (rateLimitKey r2) \<and>
         fst (isRateLimited r2 (snd (requests r1 kv ts)) t) = fst (isRateLimited r2 kv t)"
proof -
  have k1: "rateLimitKey r1 = ''rl_'' @ ip1 @ ''_'' @ ua1"
    by (simp only: rateLimitKey_eq ip1 ua1)
  have k2: "rateLimitKey r2 = ''rl_'' @ ip2 @ ''_'' @ ua2"
    by (simp only: rateLimitKey_eq ip2 ua2)
  have ne: "rateLimitKey r1 \<noteq> rateLimitKey r2"
  proof
    assume "rateLimitKey r1 = rateLimitKey r2"
    then have eq: "ip1 @ ''_'' @ ua1 = ip2 @ ''_'' @ ua2"
      by (simp add: k1 k2)
    from ips show False
    proof
      assume "ip1 = ip2"
      then show False using eq differ by simp
    next
      assume "CHR ''_'' \<notin> set ip1 \<and> CHR ''_'' \<notin> set ip2"
      then have "ip1 = ip2 \<and> ua1 = ua2"
        using split_at_underscore [of ip1 ip2 ua1 ua2] eq by blast
      then show False using differ by simp
    qed
  qed
  then have same: "snd (requests r1 kv ts) (rateLimitKey r2) = kv (rateLimitKey r2)"
    using requests_other_key [of "rateLimitKey r2" r1 kv ts] by simp
  then have "kv_get (snd (requests r1 kv ts)) t (rateLimitKey r2) = kv_get kv t (rateLimitKey r2)"
    by (simp add: kv_get_def)
  moreover have "fst (isRateLimited r2 (snd (requests r1 kv ts)) t) = fst (isRateLimited r2 kv t)"
    unfolding isRateLimited_def by (rule countRequest_cong) (rule same)
  ultimately show ?thesis
    using k1 k2 ne by simp
qed

text \<open>
  Two browsers behind the address 10.0.0.1: after the first has used up its quota and is
  rejected, the second is still admitted.
\<close>

theorem counter_per_ip_and_user_agent_witness:
  "rateLimitKey browserA = ''rl_10.0.0.1_A'' \<and>
   rateLimitKey browserB = ''rl_10.0.0.1_B'' \<and>
   rateLimitKey anonymous = ''rl_unknown_unknown'' \<and>
   fst (requests browserA Map.empty (0 # replicate 99 1 @ [2])) = replicate 100 False @ [True] \<and>
   fst (isRateLimited browserB (snd (requests browserA Map.empty (0 # replicate 99 1 @ [2]))) 3) = False"
proof -
  have hA: "headers browserA ''CF-Connecting-IP'' = Some ''10.0.0.1''"
           "headers browserA ''User-Agent'' = Some ''A''"
           "headers browserB ''CF-Connecting-IP'' = Some ''10.0.0.1''"
           "headers browserB ''User-Agent'' = Some ''B''"
    by (simp_all add: browserA_def browserB_def)
  have t: "rateLimitKey browserA = ''rl_'' @ ''10.0.0.1'' @ ''_'' @ ''A'' \<and>
         rateLimitKey browserB = ''rl_'' @ ''10.0.0.1'' @ ''_'' @ ''B'' \<and>
         rateLimitKey browserA \<noteq> rateLimitKey browserB \<and>
         kv_get (snd (requests browserA Map.empty (0 # replicate 99 1 @ [2]))) 3 (rateLimitKey browserB) =
           kv_get Map.empty 3 (rateLimitKey browserB) \<and>
         fst (isRateLimited browserB (snd (requests browserA Map.empty (0 # replicate 99 1 @ [2]))) 3) =
           fst (isRateLimited browserB Map.empty 3)"
    by (rule counter_per_ip_and_user_agent) (simp_all add: hA orDefault_def)
  have b: "fst (isRateLimited browserB Map.empty 3) = False"
    by (simp add: isRateLimited_def countRequest_def kv_get_def truthy_def RATE_LIMIT_MAX_def)
  have an: "rateLimitKey anonymous = ''rl_unknown_unknown''"
    by (simp add: rateLimitKey_eq anonymous_def orDefault_def)
  have "kv_get Map.empty 0 (rateLimitKey browserA) = None"
    by (simp add: kv_get_def)
  then have "requests browserA Map.empty (0 # replicate 99 1 @ [2]) =
           (replicate 100 False @ [True], snd (requests browserA Map.empty (0 # replicate 99 1)))"
    using requests_hundred_one [of Map.empty 0 browserA "replicate 99 1" 2]
    by (simp add: windowMs_def RATE_LIMIT_WINDOW_SEC_def RATE_LIMIT_MAX_def)
  then show ?thesis
    using t b an by simp
qed

section \<open>The router\<close>

lemma validate_anonymous: "validateQueryParams asciiUpperCase anonymous = Some invalidCountryMessage"
  by (simp add: validateQueryParams_def anonymous_def searchParams_get_def truthy_def)

lemma asciiUpperCase_de: "asciiUpperCase ''de'' = ''DE''"
  by code_simp

lemma validate_browserA: "validateQueryParams asciiUpperCase browserA = None"
  by (simp add: validateQueryParams_def browserA_def searchParams_get_def truthy_def asciiUpperCase_de isUpperLetter_def less_eq_char_def)

lemma handleGetFlag_invalid:
  assumes "validateQueryParams up req = Some msg"
  shows "handleGetFlag up crypto env now req kv =
           (if fst (isRateLimited req kv now) then
              createJsonResponse
                [(''success'', JBool False), (''message'', JString ''Rate limit exceeded.'')] 429
            else createJsonResponse [(''success'', JBool False), (''message'', JString msg)] 400,
            snd (isRateLimited req kv now), [])"
  using assms by (simp add: handleGetFlag_def split: prod.splits)

lemma handleGetFlag_cors_invalid:
  assumes "validateQueryParams up req = Some msg"
  shows "handleGetFlag_cors up crypto origin env now req kv =
           (if fst (isRateLimited_cors req kv now) then
              createJsonResponse_cors
                [(''success'', JBool False), (''message'', JString ''Rate limit exceeded.'')] 429
            else createJsonResponse_cors [(''success'', JBool False), (''message'', JString msg)] 400,
            snd (isRateLimited_cors req kv now), [])"
  using assms by (simp add: handleGetFlag_cors_def split: prod.splits)

text \<open>
  Claim C4, as amended.  The Router consults the Rate Limiter before it validates the
  country parameter, in both revisions of the worker.  A request with a missing or
  malformed key is answered with the rate-limit outcome (429) when the Rate Limiter
  rejects it, and with the validation failure (400) only when the Rate Limiter admits it;
  the admission is counted.  Either way no further state is reached: nothing but the
  counter is written and no background refresh or origin request is started.
\<close>

theorem rate_limit_before_validation:
  assumes "validateQueryParams up req = Some msg"
  shows "handleGetFlag up crypto env now req kv =
           (if fst (isRateLimited req kv now) then
              createJsonResponse
                [(''success'', JBool False), (''message'', JString ''Rate limit exceeded.'')] 429
            else createJsonResponse [(''success'', JBool False), (''message'', JString msg)] 400,
            snd (isRateLimited req kv now), []) \<and>
         handleGetFlag_cors up crypto origin env now req kv =
           (if fst (isRateLimited_cors req kv now) then
              createJsonResponse_cors
                [(''success'', JBool False), (''message'', JString ''Rate limit exceeded.'')] 429
            else createJsonResponse_cors [(''success'', JBool False), (''message'', JString msg)] 400,
            snd (isRateLimited_cors req kv now), [])"
  using handleGetFlag_invalid [OF assms] handleGetFlag_cors_invalid [OF assms] by simp

lemma limited_exhausted: "isRateLimited anonymous exhausted 0 = (True, exhausted)"
  using rejected_at_maximum [of exhausted anonymous 900000 0]
  by (simp add: exhausted_def rateLimitKey_eq anonymous_def orDefault_def RATE_LIMIT_MAX_def
      toString.simps digitChar_def)

lemma admitted_empty: "isRateLimited anonymous Map.empty 0 =
    (False, [''rl_unknown_unknown'' \<mapsto> (''1'', 900000)])"
  using countRequest_absent [of Map.empty 0 "rateLimitKey anonymous"]
  by (simp add: isRateLimited_def kv_get_def rateLimitKey_eq anonymous_def orDefault_def
      windowMs_def RATE_LIMIT_WINDOW_SEC_def)

text \<open>A request without a country, first with no counter, then with the counter at 100.\<close>

theorem rate_limit_before_validation_witness:
  "validateQueryParams asciiUpperCase anonymous = Some invalidCountryMessage \<and>
   handleGetFlag asciiUpperCase toyCrypto demoEnv 0 anonymous Map.empty =
     (createJsonResponse [(''success'', JBool False), (''message'', JString invalidCountryMessage)] 400,
      [''rl_unknown_unknown'' \<mapsto> (''1'', 900000)], []) \<and>
   handleGetFlag asciiUpperCase toyCrypto demoEnv 0 anonymous exhausted =
     (createJsonResponse
        [(''success'', JBool False), (''message'', JString ''Rate limit exceeded.'')] 429,
      exhausted, [])"
  using rate_limit_before_validation [OF validate_anonymous, of toyCrypto demoEnv 0 Map.empty]
    rate_limit_before_validation [OF validate_anonymous, of toyCrypto demoEnv 0 exhausted]
  by (simp add: validate_anonymous limited_exhausted admitted_empty)

text \<open>
  Claim C4 as stated fails: a request without a country parameter from a client whose
  counter stands at 100 is answered 429, not 400, by both revisions.
\<close>

theorem validation_first_counterexample:
  "validateQueryParams asciiUpperCase anonymous = Some invalidCountryMessage \<and>
   status (fst (handleGetFlag asciiUpperCase toyCrypto demoEnv 0 anonymous exhausted)) = 429 \<and>
   status (fst (handleGetFlag_cors asciiUpperCase toyCrypto (\<lambda>url. HttpResponse True) demoEnv 0 anonymous
      [''rl_unknown_ip_unknown_ua'' \<mapsto> (''100'', 900000)])) = 429"
proof -
  have "isRateLimited_cors anonymous [''rl_unknown_ip_unknown_ua'' \<mapsto> (''100'', 900000)] 0 =
          (True, [''rl_unknown_ip_unknown_ua'' \<mapsto> (''100'', 900000)])"
    using countRequest_live [of "[''rl_unknown_ip_unknown_ua'' \<mapsto> (''100'', 900000)]"
        "''rl_unknown_ip_unknown_ua''" 100 900000 0]
    by (simp add: isRateLimited_cors_def getRateLimitKey_def anonymous_def orDefault_def
        RATE_LIMIT_MAX_def RATE_LIMIT_KEY_PREFIX_def toString.simps digitChar_def)
  then show ?thesis
    by (simp add: validate_anonymous handleGetFlag_invalid [OF validate_anonymous]
        handleGetFlag_cors_invalid [OF validate_anonymous] limited_exhausted
        createJsonResponse_def createJsonResponse_cors_def)
qed

lemma status_createJsonResponse [simp]:
  "status (createJsonResponse d c) = c" "status (createJsonResponse_cors d c) = c"
  by (simp_all add: createJsonResponse_def createJsonResponse_cors_def)

lemma fetchAndCacheFlag_failed:
  "fst (fetchAndCacheFlag crypto env now country kv) = [] \<Longrightarrow>
     snd (fetchAndCacheFlag crypto env now country kv) = kv"
  by (simp add: fetchAndCacheFlag_def split: completion.splits if_splits)

lemma fetchAndCacheFlag_cors_failed:
  "fst (fetchAndCacheFlag_cors crypto origin env now country kv) = [] \<Longrightarrow>
     fst (snd (fetchAndCacheFlag_cors crypto origin env now country kv)) = kv"
  by (auto simp: fetchAndCacheFlag_cors_def truthy_def
      split: prod.splits completion.splits option.splits if_splits)

lemma fetchAndCacheFlag_failed_pair:
  "fetchAndCacheFlag crypto env now country kv = ([], kv') \<Longrightarrow> kv' = kv"
  using fetchAndCacheFlag_failed [of crypto env now country kv] by simp

lemma fetchAndCacheFlag_cors_failed_pair:
  "fetchAndCacheFlag_cors crypto origin env now country kv = ([], kv', fetched) \<Longrightarrow> kv' = kv"
  using fetchAndCacheFlag_cors_failed [of crypto origin env now country kv] by simp

lemma counter_key_not_flag:
  "rateLimitKey req \<noteq> ''flag_'' @ c" "getRateLimitKey req \<noteq> ''flag_'' @ c"
  by (simp_all add: rateLimitKey_eq getRateLimitKey_def RATE_LIMIT_KEY_PREFIX_def)

lemma isRateLimited_keeps_flags:
  "snd (isRateLimited req kv now) (''flag_'' @ c) = kv (''flag_'' @ c)"
  "snd (isRateLimited_cors req kv now) (''flag_'' @ c) = kv (''flag_'' @ c)"
  using countRequest_other [of "''flag_'' @ c" "rateLimitKey req" kv now]
    countRequest_other [of "''flag_'' @ c" "getRateLimitKey req" kv now]
    counter_key_not_flag [of req c]
  by (simp_all add: isRateLimited_def isRateLimited_cors_def)

lemma handleGetFlag_500:
  assumes "status (fst (handleGetFlag up crypto env now req kv)) = 500"
  shows "fst (handleGetFlag up crypto env now req kv) = createJsonResponse fetchErrorResponse 500 \<and>
         fst (snd (handleGetFlag up crypto env now req kv)) = snd (isRateLimited req kv now)"
  using assms
  by (auto simp: handleGetFlag_def Let_def fetchErrorResponse_def
      split: prod.splits option.splits if_splits dest: fetchAndCacheFlag_failed_pair)

lemma handleGetFlag_cors_500:
  assumes "status (fst (handleGetFlag_cors up crypto origin env now req kv)) = 500"
  shows "fst (handleGetFlag_cors up crypto origin env now req kv) =
           createJsonResponse_cors fetchErrorResponse 500 \<and>
         fst (snd (handleGetFlag_cors up crypto origin env now req kv)) =
           snd (isRateLimited_cors req kv now)"
  using assms
  by (auto simp: handleGetFlag_cors_def Let_def fetchErrorResponse_def
      split: prod.splits option.splits if_splits dest: fetchAndCacheFlag_cors_failed_pair)

text \<open>
  Claim C7.  A failed resolution (the Origin Fetcher returns the empty string) leaves the
  namespace as it was, in both revisions of the worker, and so does a failed background
  refresh.  When the Router answers 500, no \<open>flag_\<close> entry has changed: a later read of
  any cache key sees what it would have seen before, never a cached failure.
\<close>

theorem failed_resolution_writes_nothing:
  "(fst (fetchAndCacheFlag crypto env now country kv) = [] \<longrightarrow>
      snd (fetchAndCacheFlag crypto env now country kv) = kv \<and>
      backgroundRefresh crypto env now country kv = kv) \<and>
   (fst (fetchAndCacheFlag_cors crypto origin env now country kv) = [] \<longrightarrow>
      fst (snd (fetchAndCacheFlag_cors crypto origin env now country kv)) = kv) \<and>
   (status (fst (handleGetFlag up crypto env now req kv)) = 500 \<longrightarrow>
      kv_get (fst (snd (handleGetFlag up crypto env now req kv))) t (''flag_'' @ c) =
        kv_get kv t (''flag_'' @ c)) \<and>
   (status (fst (handleGetFlag_cors up crypto origin env now req kv)) = 500 \<longrightarrow>
      kv_get (fst (snd (handleGetFlag_cors up crypto origin env now req kv))) t (''flag_'' @ c) =
        kv_get kv t (''flag_'' @ c))"
proof (intro conjI impI)
  assume f: "fst (fetchAndCacheFlag crypto env now country kv) = []"
  then show "snd (fetchAndCacheFlag crypto env now country kv) = kv"
    by (rule fetchAndCacheFlag_failed)
  with f show "backgroundRefresh crypto env now country kv = kv"
    by (cases "fetchAndCacheFlag crypto env now country kv") (simp add: backgroundRefresh_def)
next
  assume "fst (fetchAndCacheFlag_cors crypto origin env now country kv) = []"
  then show "fst (snd (fetchAndCacheFlag_cors crypto origin env now country kv)) = kv"
    by (rule fetchAndCacheFlag_cors_failed)
next
  assume "status (fst (handleGetFlag up crypto env now req kv)) = 500"
  then have "fst (snd (handleGetFlag up crypto env now req kv)) = snd (isRateLimited req kv now)"
    using handleGetFlag_500 by blast
  then show "kv_get (fst (snd (handleGetFlag up crypto env now req kv))) t (''flag_'' @ c) =
        kv_get kv t (''flag_'' @ c)"
    by (simp only: kv_get_def isRateLimited_keeps_flags)
next
  assume "status (fst (handleGetFlag_cors up crypto origin env now req kv)) = 500"
  then have "fst (snd (handleGetFlag_cors up crypto origin env now req kv)) =
      snd (isRateLimited_cors req kv now)"
    using handleGetFlag_cors_500 by blast
  then show "kv_get (fst (snd (handleGetFlag_cors up crypto origin env now req kv))) t (''flag_'' @ c) =
        kv_get kv t (''flag_'' @ c)"
    by (simp only: kv_get_def isRateLimited_keeps_flags)
qed

lemma fetchFromCloudinary_failing: "fetchFromCloudinary failingCrypto now country env = Throws"
  by (simp add: fetchFromCloudinary_def signatureHex_def failingCrypto_def)

lemma fetchAndCacheFlag_failing: "fetchAndCacheFlag failingCrypto env now country kv = ([], kv)"
  by (simp add: fetchAndCacheFlag_def fetchFromCloudinary_failing)

lemma admitted_browserA:
  "isRateLimited browserA Map.empty 0 = (False, [''rl_10.0.0.1_A'' \<mapsto> (''1'', 900000)])"
  using countRequest_absent [of Map.empty 0 "rateLimitKey browserA"]
  by (simp add: isRateLimited_def kv_get_def rateLimitKey_eq browserA_def orDefault_def
      windowMs_def RATE_LIMIT_WINDOW_SEC_def)

lemma country_browserA:
  "asciiUpperCase (case searchParams_get browserA ''country'' of None \<Rightarrow> [] | Some c \<Rightarrow> c) = ''DE''"
  by (simp add: searchParams_get_def browserA_def asciiUpperCase_de)

lemma requestedCountry_browserA: "requestedCountry asciiUpperCase browserA = ''DE''"
  by (simp add: requestedCountry_def country_browserA)

lemma handleGetFlag_failing:
  "handleGetFlag asciiUpperCase failingCrypto demoEnv 0 browserA Map.empty =
     (createJsonResponse fetchErrorResponse 500, [''rl_10.0.0.1_A'' \<mapsto> (''1'', 900000)], [])"
  by (simp add: handleGetFlag_def admitted_browserA validate_browserA country_browserA
      kv_get_def truthy_def fetchAndCacheFlag_failing fetchErrorResponse_def)

lemma fetchSignedCloudinaryUrl_once:
  "length (snd (fetchSignedCloudinaryUrl crypto origin now country env)) \<le> 1"
  by (simp add: fetchSignedCloudinaryUrl_def Let_def split: option.splits fetch_result.splits)

lemma handleGetFlag_miss_failed:
  assumes "\<not> fst (isRateLimited req kv now)" and "validateQueryParams up req = None"
      and "truthy (kv_get (snd (isRateLimited req kv now)) now
             (''flag_'' @ requestedCountry up req)) = None"
      and "fetchFromCloudinary crypto now (requestedCountry up req) env = Throws"
  shows "handleGetFlag up crypto env now req kv =
           (createJsonResponse fetchErrorResponse 500, snd (isRateLimited req kv now), [])"
proof -
  obtain l kvr where rl: "isRateLimited req kv now = (l, kvr)" by fastforce
  show ?thesis
    using assms
    by (simp add: handleGetFlag_def rl Let_def requestedCountry_def fetchErrorResponse_def
        fetchAndCacheFlag_def)
qed

lemma handleGetFlag_cors_miss_failed:
  assumes "\<not> fst (isRateLimited_cors req kv now)" and "validateQueryParams up req = None"
      and "truthy (kv_get (snd (isRateLimited_cors req kv now)) now
             (''flag_'' @ requestedCountry up req)) = None"
      and "fst (fetchSignedCloudinaryUrl crypto origin now (requestedCountry up req) env) = Throws \<or>
           fst (fetchSignedCloudinaryUrl crypto origin now (requestedCountry up req) env) =
             Returns None"
  shows "handleGetFlag_cors up crypto origin env now req kv =
           (createJsonResponse_cors fetchErrorResponse 500, snd (isRateLimited_cors req kv now),
            snd (fetchSignedCloudinaryUrl crypto origin now (requestedCountry up req) env))"
proof -
  obtain l kvr where rl: "isRateLimited_cors req kv now = (l, kvr)" by fastforce
  have "fetchAndCacheFlag_cors crypto origin env now (requestedCountry up req) kvr =
          ([], kvr, snd (fetchSignedCloudinaryUrl crypto origin now (requestedCountry up req) env))"
    using assms(4)
    by (cases "fetchSignedCloudinaryUrl crypto origin now (requestedCountry up req) env")
       (auto simp: fetchAndCacheFlag_cors_def truthy_def)
  then show ?thesis
    using assms(1-3)
    by (simp add: handleGetFlag_cors_def rl Let_def requestedCountry_def fetchErrorResponse_def)
qed

text \<open>
  Claim C6, as amended.  When the resolution fails, whether by an exception (origin
  unreachable, signature error) or by the origin answering not-found, the Origin Fetcher
  returns the bare empty string and writes nothing; it has sent at most one request to the
  origin (there is no retry).  The Router answers every such failure of an admitted, valid
  request that missed the cache in one way: status 500 with the message
  \<open>Cloudinary fetch error\<close>, and it has no other answer with status 500.
\<close>

theorem resolution_failure_is_empty_string:
  assumes "fst (fetchSignedCloudinaryUrl crypto origin now country env) = Throws \<or>
           fst (fetchSignedCloudinaryUrl crypto origin now country env) = Returns None"
  shows "fetchAndCacheFlag_cors crypto origin env now country kv =
           ([], kv, snd (fetchSignedCloudinaryUrl crypto origin now country env)) \<and>
         length (snd (fetchSignedCloudinaryUrl crypto origin now country env)) \<le> 1 \<and>
         (fetchFromCloudinary crypto now country env = Throws \<longrightarrow>
            fetchAndCacheFlag crypto env now country kv = ([], kv)) \<and>
         (\<not> fst (isRateLimited_cors req kv now) \<and> validateQueryParams up req = None \<and>
          requestedCountry up req = country \<and>
          truthy (kv_get (snd (isRateLimited_cors req kv now)) now (''flag_'' @ country)) = None \<longrightarrow>
            handleGetFlag_cors up crypto origin env now req kv =
              (createJsonResponse_cors fetchErrorResponse 500,
               snd (isRateLimited_cors req kv now),
               snd (fetchSignedCloudinaryUrl crypto origin now country env))) \<and>
         (\<not> fst (isRateLimited req kv now) \<and> validateQueryParams up req = None \<and>
          requestedCountry up req = country \<and>
          truthy (kv_get (snd (isRateLimited req kv now)) now (''flag_'' @ country)) = None \<and>
          fetchFromCloudinary crypto now country env = Throws \<longrightarrow>
            handleGetFlag up crypto env now req kv =
              (createJsonResponse fetchErrorResponse 500, snd (isRateLimited req kv now), [])) \<and>
         (status (fst (handleGetFlag_cors up crypto origin env now req kv)) = 500 \<longrightarrow>
            fst (handleGetFlag_cors up crypto origin env now req kv) =
              createJsonResponse_cors fetchErrorResponse 500) \<and>
         (status (fst (handleGetFlag up crypto env now req kv)) = 500 \<longrightarrow>
            fst (handleGetFlag up crypto env now req kv) = createJsonResponse fetchErrorResponse 500)"
proof (intro conjI impI)
  show "fetchAndCacheFlag_cors crypto origin env now country kv =
           ([], kv, snd (fetchSignedCloudinaryUrl crypto origin now country env))"
    using assms
    by (cases "fetchSignedCloudinaryUrl crypto origin now country env")
       (auto simp: fetchAndCacheFlag_cors_def truthy_def)
  show "length (snd (fetchSignedCloudinaryUrl crypto origin now country env)) \<le> 1"
    by (rule fetchSignedCloudinaryUrl_once)
next
  assume "fetchFromCloudinary crypto now country env = Throws"
  then show "fetchAndCacheFlag crypto env now country kv = ([], kv)"
    by (simp add: fetchAndCacheFlag_def)
next
  assume h: "\<not> fst (isRateLimited_cors req kv now) \<and> validateQueryParams up req = None \<and>
          requestedCountry up req = country \<and>
          truthy (kv_get (snd (isRateLimited_cors req kv now)) now (''flag_'' @ country)) = None"
  then have c: "requestedCountry up req = country" by simp
  show "handleGetFlag_cors up crypto origin env now req kv =
              (createJsonResponse_cors fetchErrorResponse 500,
               snd (isRateLimited_cors req kv now),
               snd (fetchSignedCloudinaryUrl crypto origin now country env))"
    by (rule handleGetFlag_cors_miss_failed [of req kv now up crypto origin env, unfolded c])
       (use h assms in simp_all)
next
  assume h: "\<not> fst (isRateLimited req kv now) \<and> validateQueryParams up req = None \<and>
          requestedCountry up req = country \<and>
          truthy (kv_get (snd (isRateLimited req kv now)) now (''flag_'' @ country)) = None \<and>
          fetchFromCloudinary crypto now country env = Throws"
  then have c: "requestedCountry up req = country" by simp
  show "handleGetFlag up crypto env now req kv =
              (createJsonResponse fetchErrorResponse 500, snd (isRateLimited req kv now), [])"
    by (rule handleGetFlag_miss_failed [of req kv now up crypto env, unfolded c])
       (use h in simp_all)
next
  assume "status (fst (handleGetFlag_cors up crypto origin env now req kv)) = 500"
  then show "fst (handleGetFlag_cors up crypto origin env now req kv) =
              createJsonResponse_cors fetchErrorResponse 500"
    using handleGetFlag_cors_500 by blast
next
  assume "status (fst (handleGetFlag up crypto env now req kv)) = 500"
  then show "fst (handleGetFlag up crypto env now req kv) = createJsonResponse fetchErrorResponse 500"
    using handleGetFlag_500 by blast
qed

lemma fetchSigned_toy:
  "fetchSignedCloudinaryUrl toyCrypto origin 0 ''DE'' demoEnv =
     (case origin flagUrl of
        NetworkError \<Rightarrow> (Throws, [flagUrl])
      | HttpResponse ok \<Rightarrow> if ok then (Returns (Some flagUrl), [flagUrl]) else (Returns None, [flagUrl]))"
  by (simp add: fetchSignedCloudinaryUrl_def generateCloudinarySignature_def toyCrypto_def
      demoEnv_def TTL_SECONDS_def href_def toHex_def toString16_def padStart_def hexDigit_def
      toString.simps digitChar_def property_def flagUrl_def Let_def split: fetch_result.splits)

lemma fetchSigned_failing:
  "fetchSignedCloudinaryUrl failingCrypto origin now country env = (Throws, [])"
  by (simp add: fetchSignedCloudinaryUrl_def generateCloudinarySignature_def failingCrypto_def)

lemma admitted_cors_browserA:
  "isRateLimited_cors browserA Map.empty 0 = (False, [''rl_10.0.0.1_A'' \<mapsto> (''1'', 900000)])"
  using countRequest_absent [of Map.empty 0 "getRateLimitKey browserA"]
  by (simp add: isRateLimited_cors_def kv_get_def getRateLimitKey_def browserA_def orDefault_def
      windowMs_def RATE_LIMIT_WINDOW_SEC_def RATE_LIMIT_KEY_PREFIX_def)

lemma handleGetFlag_cors_browserA:
  "handleGetFlag_cors asciiUpperCase toyCrypto origin demoEnv 0 browserA Map.empty =
     (case fetchAndCacheFlag_cors toyCrypto origin demoEnv 0 ''DE''
             [''rl_10.0.0.1_A'' \<mapsto> (''1'', 900000)] of
        (secureUrl, kv2, fetched) \<Rightarrow>
          if secureUrl = [] then (createJsonResponse_cors fetchErrorResponse 500, kv2, fetched)
          else (createJsonResponse_cors
                  [(''success'', JBool True), (''secureUrl'', JString secureUrl)] 200,
                kv2, fetched))"
  by (simp add: handleGetFlag_cors_def admitted_cors_browserA validate_browserA country_browserA
      kv_get_def truthy_def fetchErrorResponse_def split: prod.splits)

text \<open>
  Resolutions that fail because the digest operation rejects (serverCloudwareWorker.ts)
  and because the origin cannot be reached (part_002), on an empty namespace.
\<close>

theorem failed_resolution_writes_nothing_witness:
  "fetchAndCacheFlag failingCrypto demoEnv 0 ''DE'' Map.empty = ([], Map.empty) \<and>
   backgroundRefresh failingCrypto demoEnv 0 ''DE'' Map.empty = Map.empty \<and>
   fetchAndCacheFlag_cors toyCrypto (\<lambda>url. NetworkError) demoEnv 0 ''DE'' Map.empty =
     ([], Map.empty, [flagUrl]) \<and>
   status (fst (handleGetFlag asciiUpperCase failingCrypto demoEnv 0 browserA Map.empty)) = 500 \<and>
   kv_get (fst (snd (handleGetFlag asciiUpperCase failingCrypto demoEnv 0 browserA Map.empty))) 1
     (''flag_'' @ ''DE'') = None \<and>
   status (fst (handleGetFlag_cors asciiUpperCase toyCrypto (\<lambda>url. NetworkError) demoEnv 0 browserA
                  Map.empty)) = 500 \<and>
   kv_get (fst (snd (handleGetFlag_cors asciiUpperCase toyCrypto (\<lambda>url. NetworkError) demoEnv 0 browserA
                       Map.empty))) 1 (''flag_'' @ ''DE'') = None"
  using failed_resolution_writes_nothing
    [of failingCrypto demoEnv 0 "''DE''" Map.empty "\<lambda>url. NetworkError" asciiUpperCase browserA 1 "''DE''"]
    failed_resolution_writes_nothing
    [of toyCrypto demoEnv 0 "''DE''" Map.empty "\<lambda>url. NetworkError" asciiUpperCase browserA 1 "''DE''"]
  by (simp add: fetchAndCacheFlag_failing handleGetFlag_failing handleGetFlag_cors_browserA
      fetchAndCacheFlag_cors_def fetchSigned_toy truthy_def kv_get_def)

text \<open>
  The theorem at an origin that answers not-found, an origin that cannot be reached, and
  a signature operation that rejects.
\<close>

theorem resolution_failure_is_empty_string_witness:
  "fetchAndCacheFlag_cors toyCrypto (\<lambda>url. HttpResponse False) demoEnv 0 ''DE'' Map.empty =
     ([], Map.empty, [flagUrl]) \<and>
   fetchAndCacheFlag_cors toyCrypto (\<lambda>url. NetworkError) demoEnv 0 ''DE'' Map.empty =
     ([], Map.empty, [flagUrl]) \<and>
   fetchAndCacheFlag_cors failingCrypto (\<lambda>url. HttpResponse True) demoEnv 0 ''DE'' Map.empty =
     ([], Map.empty, []) \<and>
   fetchAndCacheFlag failingCrypto demoEnv 0 ''DE'' Map.empty = ([], Map.empty) \<and>
   handleGetFlag_cors asciiUpperCase toyCrypto (\<lambda>url. HttpResponse False) demoEnv 0 browserA
       Map.empty =
     (createJsonResponse_cors fetchErrorResponse 500,
      [''rl_10.0.0.1_A'' \<mapsto> (''1'', 900000)], [flagUrl]) \<and>
   handleGetFlag_cors asciiUpperCase toyCrypto (\<lambda>url. NetworkError) demoEnv 0 browserA
       Map.empty =
     (createJsonResponse_cors fetchErrorResponse 500,
      [''rl_10.0.0.1_A'' \<mapsto> (''1'', 900000)], [flagUrl]) \<and>
   handleGetFlag asciiUpperCase failingCrypto demoEnv 0 browserA Map.empty =
     (createJsonResponse fetchErrorResponse 500, [''rl_10.0.0.1_A'' \<mapsto> (''1'', 900000)], [])"
proof -
  let ?kv1 = "[''rl_10.0.0.1_A'' \<mapsto> (''1'', 900000)] :: KVNamespace"
  have miss: "truthy (kv_get ?kv1 0 (''flag_'' @ ''DE'')) = None"
    by (simp add: kv_get_def truthy_def)
  have pc: "\<not> fst (isRateLimited_cors browserA Map.empty 0) \<and>
      validateQueryParams asciiUpperCase browserA = None \<and>
      requestedCountry asciiUpperCase browserA = ''DE'' \<and>
      truthy (kv_get (snd (isRateLimited_cors browserA Map.empty 0)) 0 (''flag_'' @ ''DE'')) = None"
    using miss by (simp add: admitted_cors_browserA validate_browserA requestedCountry_browserA)
  have pa: "\<not> fst (isRateLimited browserA Map.empty 0) \<and>
      validateQueryParams asciiUpperCase browserA = None \<and>
      requestedCountry asciiUpperCase browserA = ''DE'' \<and>
      truthy (kv_get (snd (isRateLimited browserA Map.empty 0)) 0 (''flag_'' @ ''DE'')) = None \<and>
      fetchFromCloudinary failingCrypto 0 ''DE'' demoEnv = Throws"
    using miss
    by (simp add: admitted_browserA validate_browserA requestedCountry_browserA
        fetchFromCloudinary_failing)
  have h1: "fst (fetchSignedCloudinaryUrl toyCrypto (\<lambda>url. HttpResponse False) 0 ''DE'' demoEnv) = Throws \<or>
      fst (fetchSignedCloudinaryUrl toyCrypto (\<lambda>url. HttpResponse False) 0 ''DE'' demoEnv) = Returns None"
    by (simp add: fetchSigned_toy)
  have h2: "fst (fetchSignedCloudinaryUrl toyCrypto (\<lambda>url. NetworkError) 0 ''DE'' demoEnv) = Throws \<or>
      fst (fetchSignedCloudinaryUrl toyCrypto (\<lambda>url. NetworkError) 0 ''DE'' demoEnv) = Returns None"
    by (simp add: fetchSigned_toy)
  have h3: "fst (fetchSignedCloudinaryUrl failingCrypto (\<lambda>url. HttpResponse True) 0 ''DE'' demoEnv) = Throws \<or>
      fst (fetchSignedCloudinaryUrl failingCrypto (\<lambda>url. HttpResponse True) 0 ''DE'' demoEnv) = Returns None"
    by (simp add: fetchSigned_failing)
  note t1 = resolution_failure_is_empty_string [OF h1, of Map.empty browserA asciiUpperCase]
  note t2 = resolution_failure_is_empty_string [OF h2, of Map.empty browserA asciiUpperCase]
  note t3 = resolution_failure_is_empty_string [OF h3, of Map.empty browserA asciiUpperCase]
  have a1: "fetchAndCacheFlag_cors toyCrypto (\<lambda>url. HttpResponse False) demoEnv 0 ''DE'' Map.empty =
       ([], Map.empty, [flagUrl])"
    using t1 [THEN conjunct1] by (simp add: fetchSigned_toy)
  have a2: "handleGetFlag_cors asciiUpperCase toyCrypto (\<lambda>url. HttpResponse False) demoEnv 0 browserA
         Map.empty =
       (createJsonResponse_cors fetchErrorResponse 500, ?kv1, [flagUrl])"
    using t1 [THEN conjunct2, THEN conjunct2, THEN conjunct2, THEN conjunct1] pc by (simp add: fetchSigned_toy admitted_cors_browserA)
  have b1: "fetchAndCacheFlag_cors toyCrypto (\<lambda>url. NetworkError) demoEnv 0 ''DE'' Map.empty =
       ([], Map.empty, [flagUrl])"
    using t2 [THEN conjunct1] by (simp add: fetchSigned_toy)
  have b2: "handleGetFlag_cors asciiUpperCase toyCrypto (\<lambda>url. NetworkError) demoEnv 0 browserA
         Map.empty =
       (createJsonResponse_cors fetchErrorResponse 500, ?kv1, [flagUrl])"
    using t2 [THEN conjunct2, THEN conjunct2, THEN conjunct2, THEN conjunct1] pc by (simp add: fetchSigned_toy admitted_cors_browserA)
  have c1: "fetchAndCacheFlag_cors failingCrypto (\<lambda>url. HttpResponse True) demoEnv 0 ''DE'' Map.empty =
       ([], Map.empty, [])"
    using t3 [THEN conjunct1] by (simp add: fetchSigned_failing)
  have c2: "fetchAndCacheFlag failingCrypto demoEnv 0 ''DE'' Map.empty = ([], Map.empty)"
    using t3 [THEN conjunct2, THEN conjunct2, THEN conjunct1] by (simp add: fetchFromCloudinary_failing)
  have c3: "handleGetFlag asciiUpperCase failingCrypto demoEnv 0 browserA Map.empty =
       (createJsonResponse fetchErrorResponse 500, ?kv1, [])"
    using t3 [THEN conjunct2, THEN conjunct2, THEN conjunct2, THEN conjunct2, THEN conjunct1] pa by (simp add: admitted_browserA)
  show ?thesis using a1 a2 b1 b2 c1 c2 c3 by simp
qed

text \<open>
  Claim C6 as stated fails: for the country \<open>DE\<close>, an origin that answers not-found,
  an origin that cannot be reached and a rejected signature all make the Origin Fetcher
  return the empty string.  The Router's whole result for the not-found origin equals the
  one for the unreachable origin, status 500, after a single request to the origin.
\<close>

theorem typed_failure_counterexample:
  "fst (fetchAndCacheFlag_cors toyCrypto (\<lambda>url. HttpResponse False) demoEnv 0 ''DE'' Map.empty) = [] \<and>
   fst (fetchAndCacheFlag_cors toyCrypto (\<lambda>url. NetworkError) demoEnv 0 ''DE'' Map.empty) = [] \<and>
   fst (fetchAndCacheFlag_cors failingCrypto (\<lambda>url. HttpResponse True) demoEnv 0 ''DE'' Map.empty) = [] \<and>
   status (fst (handleGetFlag_cors asciiUpperCase toyCrypto (\<lambda>url. HttpResponse False) demoEnv 0 browserA Map.empty)) = 500 \<and>
   handleGetFlag_cors asciiUpperCase toyCrypto (\<lambda>url. HttpResponse False) demoEnv 0 browserA Map.empty =
     handleGetFlag_cors asciiUpperCase toyCrypto (\<lambda>url. NetworkError) demoEnv 0 browserA Map.empty \<and>
   snd (snd (handleGetFlag_cors asciiUpperCase toyCrypto (\<lambda>url. NetworkError) demoEnv 0 browserA Map.empty)) = [flagUrl]"
  by (simp add: handleGetFlag_cors_browserA fetchAndCacheFlag_cors_def fetchSigned_toy
      fetchSigned_failing truthy_def)



lemma fetchAndCacheFlag_cors_fetched:
  assumes "fetchAndCacheFlag_cors crypto origin env now country kv = (u, kv', fetched)" and "u \<noteq> []"
  shows "fetched \<noteq> []"
  using assms
  by (auto simp: fetchAndCacheFlag_cors_def fetchSignedCloudinaryUrl_def Let_def truthy_def
      split: prod.splits completion.splits option.splits fetch_result.splits if_splits)














lemma handleGetFlag_response:
  "\<exists>d c. fst (handleGetFlag up crypto env now req kv) = createJsonResponse d c"
  by (auto simp: handleGetFlag_def Let_def split: prod.splits option.splits if_splits)

lemma handleGetFlag_cors_response:
  "\<exists>d c. fst (handleGetFlag_cors up crypto origin env now req kv) = createJsonResponse_cors d c"
  by (auto simp: handleGetFlag_cors_def Let_def split: prod.splits option.splits if_splits)

text \<open>
  The revision of part_002 does what claim C9 says: a preflight request is answered 204
  with the cross-origin headers, and every other response carries them.
\<close>

lemma fetch_cors_headers:
  "set corsHeaders \<subseteq> set (resHeaders (fst (fetch_cors up crypto origin env now req kv))) \<and>
   (httpMethod req = ''OPTIONS'' \<longrightarrow>
      fetch_cors up crypto origin env now req kv =
        (\<lparr>status = 204, resHeaders = corsHeaders, body = None\<rparr>, kv, []))"
proof -
  obtain d c where "fst (handleGetFlag_cors up crypto origin env now req kv) = createJsonResponse_cors d c"
    using handleGetFlag_cors_response by blast
  then show ?thesis
    by (auto simp: fetch_cors_def createJsonResponse_cors_def)
qed

lemma validate_preflight: "validateQueryParams asciiUpperCase preflight = Some invalidCountryMessage"
  by (simp add: validateQueryParams_def preflight_def searchParams_get_def truthy_def)

lemma admitted_preflight: "\<not> fst (isRateLimited preflight Map.empty 0)"
  using countRequest_absent [of Map.empty 0 "rateLimitKey preflight"]
  by (simp add: isRateLimited_def kv_get_def)

text \<open>
  Claim C9 fails on serverCloudwareWorker.ts: every response of its \<open>fetch\<close> handler
  has the header \<open>Content-Type\<close> and no other, and an \<open>OPTIONS\<close> request to
  \<open>/api/getFlag\<close> is handled like any other request (here: answered 400 for the
  missing country), not answered 204.
\<close>

theorem worker_sends_no_cors_headers:
  "resHeaders (fst (fetch up crypto env now req kv)) = [(''Content-Type'', ''application/json'')] \<and>
   status (fst (fetch asciiUpperCase toyCrypto demoEnv 0 preflight Map.empty)) = 400"
proof
  obtain d c where "fst (handleGetFlag up crypto env now req kv) = createJsonResponse d c"
    using handleGetFlag_response by blast
  then show "resHeaders (fst (fetch up crypto env now req kv)) = [(''Content-Type'', ''application/json'')]"
    by (simp add: fetch_def createJsonResponse_def)
  show "status (fst (fetch asciiUpperCase toyCrypto demoEnv 0 preflight Map.empty)) = 400"
  proof -
    have "pathname preflight = ''/api/getFlag''" by (simp add: preflight_def)
    then show ?thesis
      using admitted_preflight
      by (simp add: fetch_def handleGetFlag_invalid [OF validate_preflight])
  qed
qed

section \<open>The pending fetches of the Express server\<close>

lemma registered_after_call:
  "ongoingFetches (snd (fetchAndCacheFlag_express cloudinaryUrl now country cacheKey res srv))
     cacheKey \<noteq> None"
  by (simp add: fetchAndCacheFlag_express_def Let_def
      split: option.splits promise.splits prod.splits)

lemma registered_no_fetch:
  assumes "ongoingFetches srv cacheKey \<noteq> None"
  shows "snd (fetchAndCacheFlag_express cloudinaryUrl now country cacheKey res srv) = srv"
  using assms
  by (auto simp: fetchAndCacheFlag_express_def split: option.splits promise.splits)

lemma joined_call:
  assumes "ongoingFetches srv cacheKey = Some (Fulfilled u)"
  shows "fetchAndCacheFlag_express cloudinaryUrl now country cacheKey True srv =
           (Returns (Success200 u), srv)"
  using assms by (simp add: fetchAndCacheFlag_express_def)

lemma toString_43200: "toString 43200 = ''43200''"
  by (simp add: toString.simps digitChar_def)

lemma first_call:
  "getFlagHandler signer 0 ''DE'' emptyServer =
     (Success200 ''flags/DE.svg?expires_at=43200'', serverAfterFirst)"
  by (simp add: getFlagHandler_def cache_get_def emptyServer_def fetchAndCacheFlag_express_def
      signer_def toString_43200 serverAfterFirst_def Let_def)

lemma later_call:
  "getFlagHandler signer 86400000 ''DE'' serverAfterFirst =
     (Success200 ''flags/DE.svg?expires_at=43200'', serverAfterFirst)"
  by (simp add: getFlagHandler_def cache_get_def serverAfterFirst_def CACHE_TTL_def
      fetchAndCacheFlag_express_def Let_def)

text \<open>
  Claim C2 fails on the Express server: the \<open>finally\<close> block deletes the registration
  before \<open>ongoingFetches.set\<close> stores the promise, so after any call the key is
  registered for good.  Whatever happens to the cache afterwards, a later call for the key
  starts no fetch and changes nothing.  The flag of \<open>DE\<close> requested at time 0 is
  signed once; the same request 24 hours later, when the cache entry has expired, is
  answered with the URL signed at time 0.
\<close>

theorem pending_fetch_never_removed:
  "ongoingFetches (snd (fetchAndCacheFlag_express cloudinaryUrl now country cacheKey res srv))
     cacheKey \<noteq> None \<and>
   snd (fetchAndCacheFlag_express cloudinaryUrl' now' country' cacheKey res'
         ((snd (fetchAndCacheFlag_express cloudinaryUrl now country cacheKey res srv))
            \<lparr>cache := c\<rparr>)) =
     (snd (fetchAndCacheFlag_express cloudinaryUrl now country cacheKey res srv))\<lparr>cache := c\<rparr> \<and>
   getFlagHandler signer 0 ''DE'' emptyServer =
     (Success200 ''flags/DE.svg?expires_at=43200'', serverAfterFirst) \<and>
   getFlagHandler signer 86400000 ''DE'' serverAfterFirst =
     (Success200 ''flags/DE.svg?expires_at=43200'', serverAfterFirst) \<and>
   cache_get serverAfterFirst 86400000 ''flag_DE'' = None \<and>
   originCalls serverAfterFirst = 1"
proof (intro conjI)
  let ?srv1 = "snd (fetchAndCacheFlag_express cloudinaryUrl now country cacheKey res srv)"
  show r: "ongoingFetches ?srv1 cacheKey \<noteq> None"
    by (rule registered_after_call)
  have "ongoingFetches (?srv1\<lparr>cache := c\<rparr>) cacheKey \<noteq> None"
    using r by simp
  then show "snd (fetchAndCacheFlag_express cloudinaryUrl' now' country' cacheKey res'
         (?srv1\<lparr>cache := c\<rparr>)) = ?srv1\<lparr>cache := c\<rparr>"
    by (rule registered_no_fetch)
  show "cache_get serverAfterFirst 86400000 ''flag_DE'' = None"
    by (simp add: cache_get_def serverAfterFirst_def CACHE_TTL_def)
  show "originCalls serverAfterFirst = 1"
    by (simp add: serverAfterFirst_def)
qed (rule first_call later_call)+

end
